theory Spec2Isabelle
  imports Complex_Main
begin

section \<open>The benchmark history of \<^verbatim>\<open>dev/latency_bench/data.js\<close>\<close>

text \<open>
  The repository's only source file is one assignment statement: it binds an object
  literal to \<^verbatim>\<open>window.BENCHMARK_DATA\<close>. The literal is embedded as a value of
  the datatype \<open>js\<close> below, constructor by constructor, and the properties of the data are
  predicates evaluated on that value.
\<close>

subsection \<open>Values of an object literal\<close>

text \<open>
  An object literal is built from booleans, numbers, strings, arrays and objects.
  A number literal is kept as the exact rational its decimal digits denote. An object is
  the list of its properties in the order the literal writes them.
\<close>

datatype js =
    JBool bool
  | JNum rat
  | JStr string
  | JArr "js list"
  | JObj "(string \<times> js) list"

text \<open>
  Property access \<^verbatim>\<open>v[k]\<close>. When an object literal writes a key twice the later
  one is the property's value, hence the reversal; a value that is not an object has no
  property (\<^verbatim>\<open>undefined\<close>, here \<open>None\<close>).
\<close>

fun field :: "string \<Rightarrow> js \<Rightarrow> js option" where
  "field k (JObj kvs) = map_of (rev kvs) k"
| "field k _ = None"

fun elems :: "js \<Rightarrow> js list" where
  "elems (JArr xs) = xs"
| "elems _ = []"

subsection \<open>The data\<close>

text \<open>
  The literal, in the order of the file. Each run record is written in four definitions:
  its commit message (a string), its \<^verbatim>\<open>commit\<close> object, its \<^verbatim>\<open>benches\<close>
  array, and the record itself, which refers to the other three by name. In a string,
  a line feed is written \<open>\<newline>\<close> and a carriage return \<open>CHR 0x0D\<close>.
\<close>

text \<open>Element 0 of \<^verbatim>\<open>entries.Benchmark\<close>: data.js, lines 6 to 59 (the commit message at line 20, the commit at lines 7 to 24, the measurements at lines 27 to 58).\<close>

definition message_0 :: string where
  \<open>message_0 = ''Fixes for Rust 1.72 (#479)\<newline>\<newline>* Fixes for Rust 1.72\<newline>\<newline>Signed-off-by: James Bornholt <bornholt@amazon.com>\<newline>\<newline>* Fix tracing\<newline>\<newline>Signed-off-by: James Bornholt <bornholt@amazon.com>\<newline>\<newline>---------\<newline>\<newline>Signed-off-by: James Bornholt <bornholt@amazon.com>''\<close>

definition commit_0 :: js where
  \<open>commit_0 = JObj [
    (''author'', JObj [(''email'', JStr ''bornholt@amazon.com''), (''name'', JStr ''James Bornholt''), (''username'', JStr ''jamesbornholt'')]),
    (''committer'', JObj [(''email'', JStr ''noreply@github.com''), (''name'', JStr ''GitHub''), (''username'', JStr ''web-flow'')]),
    (''distinct'', JBool True),
    (''id'', JStr ''c7464d043a0792a164aa6ecbb189974b2e2dfeeb''),
    (''message'', JStr message_0),
    (''timestamp'', JStr ''2023-08-25T15:38:27Z''),
    (''tree_id'', JStr ''0ff6bd84f859a7b1fff3f2e95a32a004d6b80a45''),
    (''url'', JStr ''https://github.com/awslabs/mountpoint-s3/commit/c7464d043a0792a164aa6ecbb189974b2e2dfeeb'')]\<close>

definition benches_0 :: js where
  \<open>benches_0 = JArr [
    JObj [(''name'', JStr ''readdir_100''), (''value'', JNum 0.072), (''unit'', JStr ''seconds'')],
    JObj [(''name'', JStr ''readdir_1000''), (''value'', JNum 0.175), (''unit'', JStr ''seconds'')],
    JObj [(''name'', JStr ''readdir_10000''), (''value'', JNum 1.149), (''unit'', JStr ''seconds'')],
    JObj [(''name'', JStr ''readdir_100000''), (''value'', JNum 10.888), (''unit'', JStr ''seconds'')],
    JObj [(''name'', JStr ''time_to_first_byte_read''), (''value'', JNum 103.8612371), (''unit'', JStr ''milliseconds'')],
    JObj [(''name'', JStr ''time_to_first_byte_read_small_file''), (''value'', JNum 76.0403998), (''unit'', JStr ''milliseconds'')]]\<close>

definition run_0 :: js where
  \<open>run_0 = JObj [
    (''commit'', commit_0),
    (''date'', JNum 1692980275812),
    (''tool'', JStr ''customSmallerIsBetter''),
    (''benches'', benches_0)]\<close>

text \<open>Element 1 of \<^verbatim>\<open>entries.Benchmark\<close>: data.js, lines 60 to 113 (the commit message at line 74, the commit at lines 61 to 78, the measurements at lines 81 to 112).\<close>

definition message_1 :: string where
  \<open>message_1 = (''Updates encryption documentation for SSE-KMS, DSSE-KMS (#480)\<newline>\<newline>* improves encryption documentation'' @ [CHR 0x0D] @ ''\<newline>'' @ [CHR 0x0D] @ ''\<newline>Signed-off-by: Ahmar Suhail <ahmarsu@amazon.co.uk>'' @ [CHR 0x0D] @ ''\<newline>'' @ [CHR 0x0D] @ ''\<newline>* Update doc/CONFIGURATION.md'' @ [CHR 0x0D] @ ''\<newline>'' @ [CHR 0x0D] @ ''\<newline>Co-authored-by: James Bornholt <jamesbornholt@gmail.com>'' @ [CHR 0x0D] @ ''\<newline>Signed-off-by: ahmarsuhail <ahmar.suhail@gmail.com>'' @ [CHR 0x0D] @ ''\<newline>'' @ [CHR 0x0D] @ ''\<newline>---------'' @ [CHR 0x0D] @ ''\<newline>'' @ [CHR 0x0D] @ ''\<newline>Signed-off-by: Ahmar Suhail <ahmarsu@amazon.co.uk>'' @ [CHR 0x0D] @ ''\<newline>Signed-off-by: ahmarsuhail <ahmar.suhail@gmail.com>'' @ [CHR 0x0D] @ ''\<newline>Co-authored-by: Ahmar Suhail <ahmarsu@amazon.co.uk>'' @ [CHR 0x0D] @ ''\<newline>Co-authored-by: James Bornholt <jamesbornholt@gmail.com>'')\<close>

definition commit_1 :: js where
  \<open>commit_1 = JObj [
    (''author'', JObj [(''email'', JStr ''ahmar.suhail@gmail.com''), (''name'', JStr ''ahmarsuhail''), (''username'', JStr ''ahmarsuhail'')]),
    (''committer'', JObj [(''email'', JStr ''noreply@github.com''), (''name'', JStr ''GitHub''), (''username'', JStr ''web-flow'')]),
    (''distinct'', JBool True),
    (''id'', JStr ''a7e12ec872d2b51f77f7fc2b9b11b4cba0305f56''),
    (''message'', JStr message_1),
    (''timestamp'', JStr ''2023-08-25T13:05:48-05:00''),
    (''tree_id'', JStr ''8bdb885b6bf0211e6c94ce228ab1b96881a632b1''),
    (''url'', JStr ''https://github.com/awslabs/mountpoint-s3/commit/a7e12ec872d2b51f77f7fc2b9b11b4cba0305f56'')]\<close>

definition benches_1 :: js where
  \<open>benches_1 = JArr [
    JObj [(''name'', JStr ''readdir_100''), (''value'', JNum 0.074), (''unit'', JStr ''seconds'')],
    JObj [(''name'', JStr ''readdir_1000''), (''value'', JNum 0.185), (''unit'', JStr ''seconds'')],
    JObj [(''name'', JStr ''readdir_10000''), (''value'', JNum 1.138), (''unit'', JStr ''seconds'')],
    JObj [(''name'', JStr ''readdir_100000''), (''value'', JNum 10.54), (''unit'', JStr ''seconds'')],
    JObj [(''name'', JStr ''time_to_first_byte_read''), (''value'', JNum 97.5525328), (''unit'', JStr ''milliseconds'')],
    JObj [(''name'', JStr ''time_to_first_byte_read_small_file''), (''value'', JNum 66.968853), (''unit'', JStr ''milliseconds'')]]\<close>

definition run_1 :: js where
  \<open>run_1 = JObj [
    (''commit'', commit_1),
    (''date'', JNum 1692987391644),
    (''tool'', JStr ''customSmallerIsBetter''),
    (''benches'', benches_1)]\<close>

text \<open>Element 2 of \<^verbatim>\<open>entries.Benchmark\<close>: data.js, lines 114 to 167 (the commit message at line 128, the commit at lines 115 to 132, the measurements at lines 135 to 166).\<close>

definition message_2 :: string where
  \<open>message_2 = ''Bump aws-actions/configure-aws-credentials from 2 to 3 (#484)\<newline>\<newline>Bumps [aws-actions/configure-aws-credentials](https://github.com/aws-actions/configure-aws-credentials) from 2 to 3.\<newline>- [Release notes](https://github.com/aws-actions/configure-aws-credentials/releases)\<newline>- [Changelog](https://github.com/aws-actions/configure-aws-credentials/blob/main/CHANGELOG.md)\<newline>- [Commits](https://github.com/aws-actions/configure-aws-credentials/compare/v2...v3)\<newline>\<newline>---\<newline>updated-dependencies:\<newline>- dependency-name: aws-actions/configure-aws-credentials\<newline>  dependency-type: direct:production\<newline>  update-type: version-update:semver-major\<newline>...\<newline>\<newline>Signed-off-by: dependabot[bot] <support@github.com>\<newline>Co-authored-by: dependabot[bot] <49699333+dependabot[bot]@users.noreply.github.com>''\<close>

definition commit_2 :: js where
  \<open>commit_2 = JObj [
    (''author'', JObj [(''email'', JStr ''49699333+dependabot[bot]@users.noreply.github.com''), (''name'', JStr ''dependabot[bot]''), (''username'', JStr ''dependabot[bot]'')]),
    (''committer'', JObj [(''email'', JStr ''noreply@github.com''), (''name'', JStr ''GitHub''), (''username'', JStr ''web-flow'')]),
    (''distinct'', JBool True),
    (''id'', JStr ''f10dc5b34edeed6d9640911054bef1366751f11e''),
    (''message'', JStr message_2),
    (''timestamp'', JStr ''2023-08-28T17:31:03Z''),
    (''tree_id'', JStr ''e4ee11c1b6513cb4048abdcf47c05c785f3af657''),
    (''url'', JStr ''https://github.com/awslabs/mountpoint-s3/commit/f10dc5b34edeed6d9640911054bef1366751f11e'')]\<close>

definition benches_2 :: js where
  \<open>benches_2 = JArr [
    JObj [(''name'', JStr ''readdir_100''), (''value'', JNum 0.082), (''unit'', JStr ''seconds'')],
    JObj [(''name'', JStr ''readdir_1000''), (''value'', JNum 0.18), (''unit'', JStr ''seconds'')],
    JObj [(''name'', JStr ''readdir_10000''), (''value'', JNum 1.154), (''unit'', JStr ''seconds'')],
    JObj [(''name'', JStr ''readdir_100000''), (''value'', JNum 10.809), (''unit'', JStr ''seconds'')],
    JObj [(''name'', JStr ''time_to_first_byte_read''), (''value'', JNum 83.8370987), (''unit'', JStr ''milliseconds'')],
    JObj [(''name'', JStr ''time_to_first_byte_read_small_file''), (''value'', JNum 72.1544018), (''unit'', JStr ''milliseconds'')]]\<close>

definition run_2 :: js where
  \<open>run_2 = JObj [
    (''commit'', commit_2),
    (''date'', JNum 1693246290233),
    (''tool'', JStr ''customSmallerIsBetter''),
    (''benches'', benches_2)]\<close>

text \<open>Element 3 of \<^verbatim>\<open>entries.Benchmark\<close>: data.js, lines 168 to 221 (the commit message at line 182, the commit at lines 169 to 186, the measurements at lines 189 to 220).\<close>

definition message_3 :: string where
  \<open>message_3 = ''Support building with Clang 16 (#486)\<newline>\<newline>In order to build with Clang 16, the bindgen dependency needs to be\<newline>upgraded to at least version 0.62.0 (this change bumps to the latest,\<newline>which is 0.66.1). See awslabs/mountpoint-s3#485\<newline>\<newline>Signed-off-by: Sean Arms <67096+lesserwhirls@users.noreply.github.com>''\<close>

definition commit_3 :: js where
  \<open>commit_3 = JObj [
    (''author'', JObj [(''email'', JStr ''67096+lesserwhirls@users.noreply.github.com''), (''name'', JStr ''Sean Arms''), (''username'', JStr ''lesserwhirls'')]),
    (''committer'', JObj [(''email'', JStr ''noreply@github.com''), (''name'', JStr ''GitHub''), (''username'', JStr ''web-flow'')]),
    (''distinct'', JBool True),
    (''id'', JStr ''09f556edf6ed4233ff6c419dbf9331ac082c11d5''),
    (''message'', JStr message_3),
    (''timestamp'', JStr ''2023-08-28T18:06:18Z''),
    (''tree_id'', JStr ''6bcf53c04dad3ed4eb2a512919978aee74deda1e''),
    (''url'', JStr ''https://github.com/awslabs/mountpoint-s3/commit/09f556edf6ed4233ff6c419dbf9331ac082c11d5'')]\<close>

definition benches_3 :: js where
  \<open>benches_3 = JArr [
    JObj [(''name'', JStr ''readdir_100''), (''value'', JNum 0.086), (''unit'', JStr ''seconds'')],
    JObj [(''name'', JStr ''readdir_1000''), (''value'', JNum 0.191), (''unit'', JStr ''seconds'')],
    JObj [(''name'', JStr ''readdir_10000''), (''value'', JNum 1.193), (''unit'', JStr ''seconds'')],
    JObj [(''name'', JStr ''readdir_100000''), (''value'', JNum 11.185), (''unit'', JStr ''seconds'')],
    JObj [(''name'', JStr ''time_to_first_byte_read''), (''value'', JNum 91.3870611), (''unit'', JStr ''milliseconds'')],
    JObj [(''name'', JStr ''time_to_first_byte_read_small_file''), (''value'', JNum 54.508068200000004), (''unit'', JStr ''milliseconds'')]]\<close>

definition run_3 :: js where
  \<open>run_3 = JObj [
    (''commit'', commit_3),
    (''date'', JNum 1693248083489),
    (''tool'', JStr ''customSmallerIsBetter''),
    (''benches'', benches_3)]\<close>

text \<open>Element 4 of \<^verbatim>\<open>entries.Benchmark\<close>: data.js, lines 222 to 275 (the commit message at line 236, the commit at lines 223 to 240, the measurements at lines 243 to 274).\<close>

definition message_4 :: string where
  \<open>message_4 = ''Small fixes for S3 on Outposts (#470)\<newline>\<newline>This fixes two issues that were preventing Mountpoint from working\<newline>against Outposts buckets:\<newline>1. Outposts doesn\'t include the bucket name in ListObjectsV2 responses.\<newline>   We weren\'t actually using that output anyway, so I just removed it.\<newline>2. For GetObject requests, we were sending a HTTP header like\<newline>   `Accept: application/xml,*/*`. While technically valid HTTP, it\'s\<newline>   weird to accept */* as well as something else, and it was confusing\<newline>   Outposts\' request signing. So I switched to overwriting the existing\<newline>   header, which is what the comment suggested the code was intended to\<newline>   do anyway.\<newline>\<newline>I also took this chance to make a little cleanup to parsing\<newline>ListObjectsV2 responses: the `parse` functions shouldn\'t be defined on\<newline>the generic `ListObjectsResult` structs, which are shared by all\<newline>clients.\<newline>\<newline>Signed-off-by: James Bornholt <bornholt@amazon.com>''\<close>

definition commit_4 :: js where
  \<open>commit_4 = JObj [
    (''author'', JObj [(''email'', JStr ''bornholt@amazon.com''), (''name'', JStr ''James Bornholt''), (''username'', JStr ''jamesbornholt'')]),
    (''committer'', JObj [(''email'', JStr ''noreply@github.com''), (''name'', JStr ''GitHub''), (''username'', JStr ''web-flow'')]),
    (''distinct'', JBool True),
    (''id'', JStr ''73a27c1d494e07354cab0d4b06a3a4499f6d466d''),
    (''message'', JStr message_4),
    (''timestamp'', JStr ''2023-08-30T16:35:40Z''),
    (''tree_id'', JStr ''444bdf0455dc0f3ab4c24c722bed5db5e1733938''),
    (''url'', JStr ''https://github.com/awslabs/mountpoint-s3/commit/73a27c1d494e07354cab0d4b06a3a4499f6d466d'')]\<close>

definition benches_4 :: js where
  \<open>benches_4 = JArr [
    JObj [(''name'', JStr ''readdir_100''), (''value'', JNum 0.076), (''unit'', JStr ''seconds'')],
    JObj [(''name'', JStr ''readdir_1000''), (''value'', JNum 0.195), (''unit'', JStr ''seconds'')],
    JObj [(''name'', JStr ''readdir_10000''), (''value'', JNum 1.153), (''unit'', JStr ''seconds'')],
    JObj [(''name'', JStr ''readdir_100000''), (''value'', JNum 10.843), (''unit'', JStr ''seconds'')],
    JObj [(''name'', JStr ''time_to_first_byte_read''), (''value'', JNum 98.2288027), (''unit'', JStr ''milliseconds'')],
    JObj [(''name'', JStr ''time_to_first_byte_read_small_file''), (''value'', JNum 92.819065), (''unit'', JStr ''milliseconds'')]]\<close>

definition run_4 :: js where
  \<open>run_4 = JObj [
    (''commit'', commit_4),
    (''date'', JNum 1693415889919),
    (''tool'', JStr ''customSmallerIsBetter''),
    (''benches'', benches_4)]\<close>

text \<open>Element 5 of \<^verbatim>\<open>entries.Benchmark\<close>: data.js, lines 276 to 329 (the commit message at line 290, the commit at lines 277 to 294, the measurements at lines 297 to 328).\<close>

definition message_5 :: string where
  \<open>message_5 = ''Allow reading restored GFR/GDA objects (#434) (#467)\<newline>\<newline>Signed-off-by: Vlad Volodkin <vlaad@amazon.com>\<newline>Co-authored-by: Vlad Volodkin <vlaad@amazon.com>''\<close>

definition commit_5 :: js where
  \<open>commit_5 = JObj [
    (''author'', JObj [(''email'', JStr ''vladvolodkin@gmail.com''), (''name'', JStr ''Volodkin Vladislav''), (''username'', JStr ''vladem'')]),
    (''committer'', JObj [(''email'', JStr ''noreply@github.com''), (''name'', JStr ''GitHub''), (''username'', JStr ''web-flow'')]),
    (''distinct'', JBool True),
    (''id'', JStr ''5626e204259e6a8141d798dbc0837ce3e3e3c3c3''),
    (''message'', JStr message_5),
    (''timestamp'', JStr ''2023-08-30T22:33:46Z''),
    (''tree_id'', JStr ''b6e1559cd71f934917f8e13028b3f7ddb68ef46a''),
    (''url'', JStr ''https://github.com/awslabs/mountpoint-s3/commit/5626e204259e6a8141d798dbc0837ce3e3e3c3c3'')]\<close>

definition benches_5 :: js where
  \<open>benches_5 = JArr [
    JObj [(''name'', JStr ''readdir_100''), (''value'', JNum 0.074), (''unit'', JStr ''seconds'')],
    JObj [(''name'', JStr ''readdir_1000''), (''value'', JNum 0.271), (''unit'', JStr ''seconds'')],
    JObj [(''name'', JStr ''readdir_10000''), (''value'', JNum 1.112), (''unit'', JStr ''seconds'')],
    JObj [(''name'', JStr ''readdir_100000''), (''value'', JNum 10.574), (''unit'', JStr ''seconds'')],
    JObj [(''name'', JStr ''time_to_first_byte_read''), (''value'', JNum 77.7493373), (''unit'', JStr ''milliseconds'')],
    JObj [(''name'', JStr ''time_to_first_byte_read_small_file''), (''value'', JNum 78.6989397), (''unit'', JStr ''milliseconds'')]]\<close>

definition run_5 :: js where
  \<open>run_5 = JObj [
    (''commit'', commit_5),
    (''date'', JNum 1693437064719),
    (''tool'', JStr ''customSmallerIsBetter''),
    (''benches'', benches_5)]\<close>

text \<open>Element 6 of \<^verbatim>\<open>entries.Benchmark\<close>: data.js, lines 330 to 383 (the commit message at line 344, the commit at lines 331 to 348, the measurements at lines 351 to 382).\<close>

definition message_6 :: string where
  \<open>message_6 = ''Close input/output handles when running in background (#489)\<newline>\<newline>When we run in background mode, the child process inherits the\<newline>stdin/stdout/stderr of the parent. That\'s good because we can print\<newline>mount errors from the child and have them reach the parent. But once\<newline>we\'re mounted and the parent exits, the child still holds onto those\<newline>handles. This is bad if those handles are pipes, which are often used\<newline>when trying to launch a daemon (e.g. Python subprocess.check_output). In\<newline>that case, the pipes will never close and the caller will keep waiting\<newline>for output on them forever.\<newline>\<newline>We need to close these handles once we\'re successfully daemonized. This\<newline>will prevent us from seeing anything the process prints after they\'re\<newline>closed, but from that point we should be logging anyway, so shouldn\'t be\<newline>printing. Printing still works (doesn\'t panic or anything), just doesn\'t\<newline>go anywhere.\<newline>\<newline>With this change, a Python script like\<newline>\<newline>    import subprocess\<newline>    subprocess.check_output([\'mount-s3\', \'doc-example-bucket\', \'/bucket\'])\<newline>\<newline>works correctly: once the mount has succeeded, it returns. Without this\<newline>change, this program blocks until the bucket is unmounted.\<newline>\<newline>Signed-off-by: James Bornholt <bornholt@amazon.com>''\<close>

definition commit_6 :: js where
  \<open>commit_6 = JObj [
    (''author'', JObj [(''email'', JStr ''bornholt@amazon.com''), (''name'', JStr ''James Bornholt''), (''username'', JStr ''jamesbornholt'')]),
    (''committer'', JObj [(''email'', JStr ''noreply@github.com''), (''name'', JStr ''GitHub''), (''username'', JStr ''web-flow'')]),
    (''distinct'', JBool False),
    (''id'', JStr ''5e8d834c2df2269d2f8670f38bc3c764d10a90f7''),
    (''message'', JStr message_6),
    (''timestamp'', JStr ''2023-08-31T12:42:20Z''),
    (''tree_id'', JStr ''4b2c3032f1df614a94637e0d1e1aa4b45ca30025''),
    (''url'', JStr ''https://github.com/awslabs/mountpoint-s3/commit/5e8d834c2df2269d2f8670f38bc3c764d10a90f7'')]\<close>

definition benches_6 :: js where
  \<open>benches_6 = JArr [
    JObj [(''name'', JStr ''readdir_100''), (''value'', JNum 0.083), (''unit'', JStr ''seconds'')],
    JObj [(''name'', JStr ''readdir_1000''), (''value'', JNum 0.188), (''unit'', JStr ''seconds'')],
    JObj [(''name'', JStr ''readdir_10000''), (''value'', JNum 1.142), (''unit'', JStr ''seconds'')],
    JObj [(''name'', JStr ''readdir_100000''), (''value'', JNum 10.879), (''unit'', JStr ''seconds'')],
    JObj [(''name'', JStr ''time_to_first_byte_read''), (''value'', JNum 101.2566887), (''unit'', JStr ''milliseconds'')],
    JObj [(''name'', JStr ''time_to_first_byte_read_small_file''), (''value'', JNum 65.2557248), (''unit'', JStr ''milliseconds'')]]\<close>

definition run_6 :: js where
  \<open>run_6 = JObj [
    (''commit'', commit_6),
    (''date'', JNum 1693487974539),
    (''tool'', JStr ''customSmallerIsBetter''),
    (''benches'', benches_6)]\<close>

text \<open>Element 7 of \<^verbatim>\<open>entries.Benchmark\<close>: data.js, lines 384 to 437 (the commit message at line 398, the commit at lines 385 to 402, the measurements at lines 405 to 436).\<close>

definition message_7 :: string where
  \<open>message_7 = ''Bump version of Mountpoint to v1.0.1 (#494)\<newline>\<newline>* Bump version of Mountpoint to v1.0.1\<newline>\<newline>Signed-off-by: Ankit Saurabh <sauraank@amazon.co.uk>\<newline>\<newline>* Added latest PRs to CHANGELOG.md\<newline>\<newline>Signed-off-by: Ankit Saurabh <sauraank@amazon.co.uk>\<newline>\<newline>* Added latest PRs to CHANGELOG.md\<newline>\<newline>Signed-off-by: Ankit Saurabh <sauraank@amazon.co.uk>\<newline>\<newline>* Added description of changes in changelog\<newline>\<newline>Signed-off-by: Ankit Saurabh <sauraank@amazon.co.uk>\<newline>\<newline>* Added PR in the changelog\<newline>\<newline>Signed-off-by: Ankit Saurabh <sauraank@amazon.co.uk>\<newline>\<newline>* Added PR in the changelog\<newline>\<newline>Signed-off-by: Ankit Saurabh <sauraank@amazon.co.uk>\<newline>\<newline>---------\<newline>\<newline>Signed-off-by: Ankit Saurabh <sauraank@amazon.co.uk>''\<close>

definition commit_7 :: js where
  \<open>commit_7 = JObj [
    (''author'', JObj [(''email'', JStr ''sauraank@amazon.co.uk''), (''name'', JStr ''Ankit Saurabh''), (''username'', JStr ''sauraank'')]),
    (''committer'', JObj [(''email'', JStr ''noreply@github.com''), (''name'', JStr ''GitHub''), (''username'', JStr ''web-flow'')]),
    (''distinct'', JBool True),
    (''id'', JStr ''7643a22ac362e6ace91b2a266f4cc91b7e6570bc''),
    (''message'', JStr message_7),
    (''timestamp'', JStr ''2023-09-01T09:11:10Z''),
    (''tree_id'', JStr ''eace6e6893afca2d09c22b628c500710f6a04933''),
    (''url'', JStr ''https://github.com/awslabs/mountpoint-s3/commit/7643a22ac362e6ace91b2a266f4cc91b7e6570bc'')]\<close>

definition benches_7 :: js where
  \<open>benches_7 = JArr [
    JObj [(''name'', JStr ''readdir_100''), (''value'', JNum 0.075), (''unit'', JStr ''seconds'')],
    JObj [(''name'', JStr ''readdir_1000''), (''value'', JNum 0.196), (''unit'', JStr ''seconds'')],
    JObj [(''name'', JStr ''readdir_10000''), (''value'', JNum 1.154), (''unit'', JStr ''seconds'')],
    JObj [(''name'', JStr ''readdir_100000''), (''value'', JNum 10.667), (''unit'', JStr ''seconds'')],
    JObj [(''name'', JStr ''time_to_first_byte_read''), (''value'', JNum 79.9257521), (''unit'', JStr ''milliseconds'')],
    JObj [(''name'', JStr ''time_to_first_byte_read_small_file''), (''value'', JNum 75.0004244), (''unit'', JStr ''milliseconds'')]]\<close>

definition run_7 :: js where
  \<open>run_7 = JObj [
    (''commit'', commit_7),
    (''date'', JNum 1693561670598),
    (''tool'', JStr ''customSmallerIsBetter''),
    (''benches'', benches_7)]\<close>

text \<open>Element 8 of \<^verbatim>\<open>entries.Benchmark\<close>: data.js, lines 438 to 491 (the commit message at line 452, the commit at lines 439 to 456, the measurements at lines 459 to 490).\<close>

definition message_8 :: string where
  \<open>message_8 = ''Update documentation for live editing use case (#491)\<newline>\<newline>* Make it clear that live editing is not a good fit for mountpoint\<newline>\<newline>Signed-off-by: Monthon Klongklaew <monthonk@amazon.com>\<newline>\<newline>* Update README.md\<newline>\<newline>Co-authored-by: James Bornholt <jamesbornholt@gmail.com>\<newline>Signed-off-by: Monthon Klongklaew <monthonk@amazon.com>\<newline>\<newline>---------\<newline>\<newline>Signed-off-by: Monthon Klongklaew <monthonk@amazon.com>\<newline>Co-authored-by: James Bornholt <jamesbornholt@gmail.com>''\<close>

definition commit_8 :: js where
  \<open>commit_8 = JObj [
    (''author'', JObj [(''email'', JStr ''monthonk@amazon.com''), (''name'', JStr ''Monthon Klongklaew''), (''username'', JStr ''monthonk'')]),
    (''committer'', JObj [(''email'', JStr ''noreply@github.com''), (''name'', JStr ''GitHub''), (''username'', JStr ''web-flow'')]),
    (''distinct'', JBool False),
    (''id'', JStr ''cc7f31e0f7db834b907ad84760c945c97f675f57''),
    (''message'', JStr message_8),
    (''timestamp'', JStr ''2023-09-01T14:27:57Z''),
    (''tree_id'', JStr ''83b64928c20eeb775938d8a370c161616c10a3f3''),
    (''url'', JStr ''https://github.com/awslabs/mountpoint-s3/commit/cc7f31e0f7db834b907ad84760c945c97f675f57'')]\<close>

definition benches_8 :: js where
  \<open>benches_8 = JArr [
    JObj [(''name'', JStr ''readdir_100''), (''value'', JNum 0.07), (''unit'', JStr ''seconds'')],
    JObj [(''name'', JStr ''readdir_1000''), (''value'', JNum 0.185), (''unit'', JStr ''seconds'')],
    JObj [(''name'', JStr ''readdir_10000''), (''value'', JNum 1.107), (''unit'', JStr ''seconds'')],
    JObj [(''name'', JStr ''readdir_100000''), (''value'', JNum 10.633), (''unit'', JStr ''seconds'')],
    JObj [(''name'', JStr ''time_to_first_byte_read''), (''value'', JNum 72.44031659999999), (''unit'', JStr ''milliseconds'')],
    JObj [(''name'', JStr ''time_to_first_byte_read_small_file''), (''value'', JNum 96.3176158), (''unit'', JStr ''milliseconds'')]]\<close>

definition run_8 :: js where
  \<open>run_8 = JObj [
    (''commit'', commit_8),
    (''date'', JNum 1693580669985),
    (''tool'', JStr ''customSmallerIsBetter''),
    (''benches'', benches_8)]\<close>

text \<open>Element 9 of \<^verbatim>\<open>entries.Benchmark\<close>: data.js, lines 492 to 545 (the commit message at line 506, the commit at lines 493 to 510, the measurements at lines 513 to 544).\<close>

definition message_9 :: string where
  \<open>message_9 = ''Change release title in the workflow (#496)\<newline>\<newline>Signed-off-by: Monthon Klongklaew <monthonk@amazon.com>''\<close>

definition commit_9 :: js where
  \<open>commit_9 = JObj [
    (''author'', JObj [(''email'', JStr ''monthonk@amazon.com''), (''name'', JStr ''Monthon Klongklaew''), (''username'', JStr ''monthonk'')]),
    (''committer'', JObj [(''email'', JStr ''noreply@github.com''), (''name'', JStr ''GitHub''), (''username'', JStr ''web-flow'')]),
    (''distinct'', JBool True),
    (''id'', JStr ''efb334dc6dbb1c72f21be20d26377ccf79989166''),
    (''message'', JStr message_9),
    (''timestamp'', JStr ''2023-09-01T14:28:08Z''),
    (''tree_id'', JStr ''62869c00cee5eb34bd3ed0e8acf104e409bde630''),
    (''url'', JStr ''https://github.com/awslabs/mountpoint-s3/commit/efb334dc6dbb1c72f21be20d26377ccf79989166'')]\<close>

definition benches_9 :: js where
  \<open>benches_9 = JArr [
    JObj [(''name'', JStr ''readdir_100''), (''value'', JNum 0.077), (''unit'', JStr ''seconds'')],
    JObj [(''name'', JStr ''readdir_1000''), (''value'', JNum 0.181), (''unit'', JStr ''seconds'')],
    JObj [(''name'', JStr ''readdir_10000''), (''value'', JNum 1.123), (''unit'', JStr ''seconds'')],
    JObj [(''name'', JStr ''readdir_100000''), (''value'', JNum 10.754), (''unit'', JStr ''seconds'')],
    JObj [(''name'', JStr ''time_to_first_byte_read''), (''value'', JNum 57.065677), (''unit'', JStr ''milliseconds'')],
    JObj [(''name'', JStr ''time_to_first_byte_read_small_file''), (''value'', JNum 78.18084990000001), (''unit'', JStr ''milliseconds'')]]\<close>

definition run_9 :: js where
  \<open>run_9 = JObj [
    (''commit'', commit_9),
    (''date'', JNum 1693580684165),
    (''tool'', JStr ''customSmallerIsBetter''),
    (''benches'', benches_9)]\<close>

text \<open>Element 10 of \<^verbatim>\<open>entries.Benchmark\<close>: data.js, lines 546 to 599 (the commit message at line 560, the commit at lines 547 to 564, the measurements at lines 567 to 598).\<close>

definition message_10 :: string where
  \<open>message_10 = ''Added Unreleased section in changelog (#497)\<newline>\<newline>Signed-off-by: Ankit Saurabh <sauraank@amazon.co.uk>''\<close>

definition commit_10 :: js where
  \<open>commit_10 = JObj [
    (''author'', JObj [(''email'', JStr ''sauraank@amazon.co.uk''), (''name'', JStr ''Ankit Saurabh''), (''username'', JStr ''sauraank'')]),
    (''committer'', JObj [(''email'', JStr ''noreply@github.com''), (''name'', JStr ''GitHub''), (''username'', JStr ''web-flow'')]),
    (''distinct'', JBool True),
    (''id'', JStr ''534c3ed7f53289587b9aa47778a7ffa76109f81e''),
    (''message'', JStr message_10),
    (''timestamp'', JStr ''2023-09-01T15:57:58Z''),
    (''tree_id'', JStr ''7fb39eccb7cba98135a54cd7b5f5f4eeeb3dfd9f''),
    (''url'', JStr ''https://github.com/awslabs/mountpoint-s3/commit/534c3ed7f53289587b9aa47778a7ffa76109f81e'')]\<close>

definition benches_10 :: js where
  \<open>benches_10 = JArr [
    JObj [(''name'', JStr ''readdir_100''), (''value'', JNum 0.081), (''unit'', JStr ''seconds'')],
    JObj [(''name'', JStr ''readdir_1000''), (''value'', JNum 0.175), (''unit'', JStr ''seconds'')],
    JObj [(''name'', JStr ''readdir_10000''), (''value'', JNum 1.165), (''unit'', JStr ''seconds'')],
    JObj [(''name'', JStr ''readdir_100000''), (''value'', JNum 10.808), (''unit'', JStr ''seconds'')],
    JObj [(''name'', JStr ''time_to_first_byte_read''), (''value'', JNum 64.1876625), (''unit'', JStr ''milliseconds'')],
    JObj [(''name'', JStr ''time_to_first_byte_read_small_file''), (''value'', JNum 66.2393769), (''unit'', JStr ''milliseconds'')]]\<close>

definition run_10 :: js where
  \<open>run_10 = JObj [
    (''commit'', commit_10),
    (''date'', JNum 1693585713065),
    (''tool'', JStr ''customSmallerIsBetter''),
    (''benches'', benches_10)]\<close>

text \<open>Element 11 of \<^verbatim>\<open>entries.Benchmark\<close>: data.js, lines 600 to 653 (the commit message at line 614, the commit at lines 601 to 618, the measurements at lines 621 to 652).\<close>

definition message_11 :: string where
  \<open>message_11 = ''Use default thread config for benchmark (#504)\<newline>\<newline>Signed-off-by: Monthon Klongklaew <monthonk@amazon.com>''\<close>

definition commit_11 :: js where
  \<open>commit_11 = JObj [
    (''author'', JObj [(''email'', JStr ''monthonk@amazon.com''), (''name'', JStr ''Monthon Klongklaew''), (''username'', JStr ''monthonk'')]),
    (''committer'', JObj [(''email'', JStr ''noreply@github.com''), (''name'', JStr ''GitHub''), (''username'', JStr ''web-flow'')]),
    (''distinct'', JBool True),
    (''id'', JStr ''b632bbe9645f1f6af26ed839e791b8a34ab74b36''),
    (''message'', JStr message_11),
    (''timestamp'', JStr ''2023-09-06T13:14:32Z''),
    (''tree_id'', JStr ''9c286583dea66a5ed85a09f85bd51c4bc1938e6b''),
    (''url'', JStr ''https://github.com/awslabs/mountpoint-s3/commit/b632bbe9645f1f6af26ed839e791b8a34ab74b36'')]\<close>

definition benches_11 :: js where
  \<open>benches_11 = JArr [
    JObj [(''name'', JStr ''readdir_100''), (''value'', JNum 0.071), (''unit'', JStr ''seconds'')],
    JObj [(''name'', JStr ''readdir_1000''), (''value'', JNum 0.169), (''unit'', JStr ''seconds'')],
    JObj [(''name'', JStr ''readdir_10000''), (''value'', JNum 1.086), (''unit'', JStr ''seconds'')],
    JObj [(''name'', JStr ''readdir_100000''), (''value'', JNum 10.588), (''unit'', JStr ''seconds'')],
    JObj [(''name'', JStr ''time_to_first_byte_read''), (''value'', JNum 70.1583657), (''unit'', JStr ''milliseconds'')],
    JObj [(''name'', JStr ''time_to_first_byte_read_small_file''), (''value'', JNum 55.906332), (''unit'', JStr ''milliseconds'')]]\<close>

definition run_11 :: js where
  \<open>run_11 = JObj [
    (''commit'', commit_11),
    (''date'', JNum 1694008263721),
    (''tool'', JStr ''customSmallerIsBetter''),
    (''benches'', benches_11)]\<close>

text \<open>Element 12 of \<^verbatim>\<open>entries.Benchmark\<close>: data.js, lines 654 to 707 (the commit message at line 668, the commit at lines 655 to 672, the measurements at lines 675 to 706).\<close>

definition message_12 :: string where
  \<open>message_12 = ''Cancel unused in-flight prefetch tasks (#505)\<newline>\<newline>Previously, mountpoint-s3 would not cancel prefetch tasks that it was going to ignore.\<newline>Instead, they would continue to be polled by the executor despite the results never being checked.\<newline>This change ensures that the task handles are dropped which cancels the task/future.\<newline>\<newline>In the future, we may want to retain some of these tasks where the prefetcher may still be able to make use of them.\<newline>\<newline>Signed-off-by: Daniel Carl Jones <djonesoa@amazon.com>''\<close>

definition commit_12 :: js where
  \<open>commit_12 = JObj [
    (''author'', JObj [(''email'', JStr ''djonesoa@amazon.com''), (''name'', JStr ''Daniel Carl Jones''), (''username'', JStr ''dannycjones'')]),
    (''committer'', JObj [(''email'', JStr ''noreply@github.com''), (''name'', JStr ''GitHub''), (''username'', JStr ''web-flow'')]),
    (''distinct'', JBool False),
    (''id'', JStr ''4db11adabc77c365d052ad99b4d64fd19b7e73bb''),
    (''message'', JStr message_12),
    (''timestamp'', JStr ''2023-09-06T16:52:01Z''),
    (''tree_id'', JStr ''a0e86d27049a74a659b94beb839ff541891b1e61''),
    (''url'', JStr ''https://github.com/awslabs/mountpoint-s3/commit/4db11adabc77c365d052ad99b4d64fd19b7e73bb'')]\<close>

definition benches_12 :: js where
  \<open>benches_12 = JArr [
    JObj [(''name'', JStr ''readdir_100''), (''value'', JNum 0.072), (''unit'', JStr ''seconds'')],
    JObj [(''name'', JStr ''readdir_1000''), (''value'', JNum 0.188), (''unit'', JStr ''seconds'')],
    JObj [(''name'', JStr ''readdir_10000''), (''value'', JNum 1.207), (''unit'', JStr ''seconds'')],
    JObj [(''name'', JStr ''readdir_100000''), (''value'', JNum 11.24), (''unit'', JStr ''seconds'')],
    JObj [(''name'', JStr ''time_to_first_byte_read''), (''value'', JNum 84.4224647), (''unit'', JStr ''milliseconds'')],
    JObj [(''name'', JStr ''time_to_first_byte_read_small_file''), (''value'', JNum 83.5045155), (''unit'', JStr ''milliseconds'')]]\<close>

definition run_12 :: js where
  \<open>run_12 = JObj [
    (''commit'', commit_12),
    (''date'', JNum 1694021415915),
    (''tool'', JStr ''customSmallerIsBetter''),
    (''benches'', benches_12)]\<close>

text \<open>Element 13 of \<^verbatim>\<open>entries.Benchmark\<close>: data.js, lines 708 to 761 (the commit message at line 722, the commit at lines 709 to 726, the measurements at lines 729 to 760).\<close>

definition message_13 :: string where
  \<open>message_13 = ''Added accesspoint variables in integration.yml (#508)\<newline>\<newline>Signed-off-by: Ankit Saurabh <sauraank@amazon.co.uk>''\<close>

definition commit_13 :: js where
  \<open>commit_13 = JObj [
    (''author'', JObj [(''email'', JStr ''sauraank@amazon.co.uk''), (''name'', JStr ''Ankit Saurabh''), (''username'', JStr ''sauraank'')]),
    (''committer'', JObj [(''email'', JStr ''noreply@github.com''), (''name'', JStr ''GitHub''), (''username'', JStr ''web-flow'')]),
    (''distinct'', JBool True),
    (''id'', JStr ''57d1bd6e525131ab58cd6a449e735aa04d9a06c3''),
    (''message'', JStr message_13),
    (''timestamp'', JStr ''2023-09-07T16:56:58Z''),
    (''tree_id'', JStr ''9d5fa6f294a3f3fe2d3b77943c85db1ed244f855''),
    (''url'', JStr ''https://github.com/awslabs/mountpoint-s3/commit/57d1bd6e525131ab58cd6a449e735aa04d9a06c3'')]\<close>

definition benches_13 :: js where
  \<open>benches_13 = JArr [
    JObj [(''name'', JStr ''readdir_100''), (''value'', JNum 0.074), (''unit'', JStr ''seconds'')],
    JObj [(''name'', JStr ''readdir_1000''), (''value'', JNum 0.194), (''unit'', JStr ''seconds'')],
    JObj [(''name'', JStr ''readdir_10000''), (''value'', JNum 1.132), (''unit'', JStr ''seconds'')],
    JObj [(''name'', JStr ''readdir_100000''), (''value'', JNum 10.934), (''unit'', JStr ''seconds'')],
    JObj [(''name'', JStr ''time_to_first_byte_read''), (''value'', JNum 76.797243), (''unit'', JStr ''milliseconds'')],
    JObj [(''name'', JStr ''time_to_first_byte_read_small_file''), (''value'', JNum 80.8760978), (''unit'', JStr ''milliseconds'')]]\<close>

definition run_13 :: js where
  \<open>run_13 = JObj [
    (''commit'', commit_13),
    (''date'', JNum 1694108055549),
    (''tool'', JStr ''customSmallerIsBetter''),
    (''benches'', benches_13)]\<close>

text \<open>Element 14 of \<^verbatim>\<open>entries.Benchmark\<close>: data.js, lines 762 to 815 (the commit message at line 776, the commit at lines 763 to 780, the measurements at lines 783 to 814).\<close>

definition message_14 :: string where
  \<open>message_14 = ''Removed extra $ from environment variable for MRAP (#514)\<newline>\<newline>Signed-off-by: Ankit Saurabh <sauraank@amazon.co.uk>''\<close>

definition commit_14 :: js where
  \<open>commit_14 = JObj [
    (''author'', JObj [(''email'', JStr ''sauraank@amazon.co.uk''), (''name'', JStr ''Ankit Saurabh''), (''username'', JStr ''sauraank'')]),
    (''committer'', JObj [(''email'', JStr ''noreply@github.com''), (''name'', JStr ''GitHub''), (''username'', JStr ''web-flow'')]),
    (''distinct'', JBool False),
    (''id'', JStr ''0a8bb28009e12b99bbb0f73017ecea7a5dfed31a''),
    (''message'', JStr message_14),
    (''timestamp'', JStr ''2023-09-13T16:40:54Z''),
    (''tree_id'', JStr ''7c1b6b7fb7310752d7fc7d4fc4d08d6d2cd75e4d''),
    (''url'', JStr ''https://github.com/awslabs/mountpoint-s3/commit/0a8bb28009e12b99bbb0f73017ecea7a5dfed31a'')]\<close>

definition benches_14 :: js where
  \<open>benches_14 = JArr [
    JObj [(''name'', JStr ''readdir_100''), (''value'', JNum 0.08), (''unit'', JStr ''seconds'')],
    JObj [(''name'', JStr ''readdir_1000''), (''value'', JNum 0.169), (''unit'', JStr ''seconds'')],
    JObj [(''name'', JStr ''readdir_10000''), (''value'', JNum 1.153), (''unit'', JStr ''seconds'')],
    JObj [(''name'', JStr ''readdir_100000''), (''value'', JNum 10.813), (''unit'', JStr ''seconds'')],
    JObj [(''name'', JStr ''time_to_first_byte_read''), (''value'', JNum 79.9100509), (''unit'', JStr ''milliseconds'')],
    JObj [(''name'', JStr ''time_to_first_byte_read_small_file''), (''value'', JNum 79.454774), (''unit'', JStr ''milliseconds'')]]\<close>

definition run_14 :: js where
  \<open>run_14 = JObj [
    (''commit'', commit_14),
    (''date'', JNum 1694625411879),
    (''tool'', JStr ''customSmallerIsBetter''),
    (''benches'', benches_14)]\<close>

text \<open>Element 15 of \<^verbatim>\<open>entries.Benchmark\<close>: data.js, lines 816 to 869 (the commit message at line 830, the commit at lines 817 to 834, the measurements at lines 837 to 868).\<close>

definition message_15 :: string where
  \<open>message_15 = ''Added accesspoint and transfer acceleration tests (#417)\<newline>\<newline>Signed-off-by: Ankit Saurabh <sauraank@amazon.co.uk>''\<close>

definition commit_15 :: js where
  \<open>commit_15 = JObj [
    (''author'', JObj [(''email'', JStr ''sauraank@amazon.co.uk''), (''name'', JStr ''Ankit Saurabh''), (''username'', JStr ''sauraank'')]),
    (''committer'', JObj [(''email'', JStr ''noreply@github.com''), (''name'', JStr ''GitHub''), (''username'', JStr ''web-flow'')]),
    (''distinct'', JBool True),
    (''id'', JStr ''8086f0e26044217b16caa21a929f6b3ed8e839b8''),
    (''message'', JStr message_15),
    (''timestamp'', JStr ''2023-09-14T16:23:48Z''),
    (''tree_id'', JStr ''c760de3ebbc76103bf93522b9a1e4d376c38e62b''),
    (''url'', JStr ''https://github.com/awslabs/mountpoint-s3/commit/8086f0e26044217b16caa21a929f6b3ed8e839b8'')]\<close>

definition benches_15 :: js where
  \<open>benches_15 = JArr [
    JObj [(''name'', JStr ''readdir_100''), (''value'', JNum 0.088), (''unit'', JStr ''seconds'')],
    JObj [(''name'', JStr ''readdir_1000''), (''value'', JNum 0.18), (''unit'', JStr ''seconds'')],
    JObj [(''name'', JStr ''readdir_10000''), (''value'', JNum 1.151), (''unit'', JStr ''seconds'')],
    JObj [(''name'', JStr ''readdir_100000''), (''value'', JNum 10.576), (''unit'', JStr ''seconds'')],
    JObj [(''name'', JStr ''time_to_first_byte_read''), (''value'', JNum 105.402678), (''unit'', JStr ''milliseconds'')],
    JObj [(''name'', JStr ''time_to_first_byte_read_small_file''), (''value'', JNum 90.94622240000001), (''unit'', JStr ''milliseconds'')]]\<close>

definition run_15 :: js where
  \<open>run_15 = JObj [
    (''commit'', commit_15),
    (''date'', JNum 1694711122616),
    (''tool'', JStr ''customSmallerIsBetter''),
    (''benches'', benches_15)]\<close>

text \<open>Element 16 of \<^verbatim>\<open>entries.Benchmark\<close>: data.js, lines 870 to 923 (the commit message at line 884, the commit at lines 871 to 888, the measurements at lines 891 to 922).\<close>

definition message_16 :: string where
  \<open>message_16 = ''Rearrange client crate and improve its docs (#511)\<newline>\<newline>* Rearrange client crate and improve its docs\<newline>\<newline>The current docs page for the client crate is pretty indecipherable.\<newline>While we\'re not currently suggesting customers use it directly, we know\<newline>a few already are, and we\'d like the docs to be legible. So this commit\<newline>moves around a bunch of the public structure of the client crate to be\<newline>consistent and intentional.\<newline>\<newline>There\'s no semantics changes here, this is all just rearranging and\<newline>commenting stuff that wasn\'t commented before.\<newline>\<newline>Signed-off-by: James Bornholt <bornholt@amazon.com>\<newline>\<newline>* Fix typo\<newline>\<newline>Signed-off-by: James Bornholt <bornholt@amazon.com>\<newline>\<newline>---------\<newline>\<newline>Signed-off-by: James Bornholt <bornholt@amazon.com>''\<close>

definition commit_16 :: js where
  \<open>commit_16 = JObj [
    (''author'', JObj [(''email'', JStr ''bornholt@amazon.com''), (''name'', JStr ''James Bornholt''), (''username'', JStr ''jamesbornholt'')]),
    (''committer'', JObj [(''email'', JStr ''noreply@github.com''), (''name'', JStr ''GitHub''), (''username'', JStr ''web-flow'')]),
    (''distinct'', JBool False),
    (''id'', JStr ''7bb17a04869ff7b4d6ae16148b3fab9d0e3bdc0a''),
    (''message'', JStr message_16),
    (''timestamp'', JStr ''2023-09-15T14:38:12Z''),
    (''tree_id'', JStr ''907857ff1594a237336e10962550779309db6d91''),
    (''url'', JStr ''https://github.com/awslabs/mountpoint-s3/commit/7bb17a04869ff7b4d6ae16148b3fab9d0e3bdc0a'')]\<close>

definition benches_16 :: js where
  \<open>benches_16 = JArr [
    JObj [(''name'', JStr ''readdir_100''), (''value'', JNum 0.079), (''unit'', JStr ''seconds'')],
    JObj [(''name'', JStr ''readdir_1000''), (''value'', JNum 0.166), (''unit'', JStr ''seconds'')],
    JObj [(''name'', JStr ''readdir_10000''), (''value'', JNum 1.149), (''unit'', JStr ''seconds'')],
    JObj [(''name'', JStr ''readdir_100000''), (''value'', JNum 10.6), (''unit'', JStr ''seconds'')],
    JObj [(''name'', JStr ''time_to_first_byte_read''), (''value'', JNum 86.0456029), (''unit'', JStr ''milliseconds'')],
    JObj [(''name'', JStr ''time_to_first_byte_read_small_file''), (''value'', JNum 80.02400279999999), (''unit'', JStr ''milliseconds'')]]\<close>

definition run_16 :: js where
  \<open>run_16 = JObj [
    (''commit'', commit_16),
    (''date'', JNum 1694790930839),
    (''tool'', JStr ''customSmallerIsBetter''),
    (''benches'', benches_16)]\<close>

text \<open>Element 17 of \<^verbatim>\<open>entries.Benchmark\<close>: data.js, lines 924 to 977 (the commit message at line 938, the commit at lines 925 to 942, the measurements at lines 945 to 976).\<close>

definition message_17 :: string where
  \<open>message_17 = ''Update HistogramFn impl to log failure to record rather than panic (#513)\<newline>\<newline>* Update HistogramFn impl to log failure to record rather than panic\<newline>\<newline>When writing 50GiB of data to a file, mountpoint-s3 panicked due to an unexpected "ValueOutOfRangeResizeDisabled" error.\<newline>When creating the Histogram, we limit it with an upper bound of 300000000. For time durations in microsecond precision, that\'s 300 seconds.\<newline>\<newline>This change allows the histogram to fail only with a log message for values in excess of 300 seconds.\<newline>\<newline>Signed-off-by: Daniel Carl Jones <djonesoa@amazon.com>\<newline>\<newline>* Update Histogram to auto-resize\<newline>\<newline>Previously, the histogram would be capped at a maximum value of 300,000,000. Now, the histogram will automatically resize.\<newline>This does come with the implication that more memory may be allocated if values of larger than 300,000,000 are recorded.\<newline>\<newline>Signed-off-by: Daniel Carl Jones <djonesoa@amazon.com>\<newline>\<newline>---------\<newline>\<newline>Signed-off-by: Daniel Carl Jones <djonesoa@amazon.com>''\<close>

definition commit_17 :: js where
  \<open>commit_17 = JObj [
    (''author'', JObj [(''email'', JStr ''djonesoa@amazon.com''), (''name'', JStr ''Daniel Carl Jones''), (''username'', JStr ''dannycjones'')]),
    (''committer'', JObj [(''email'', JStr ''noreply@github.com''), (''name'', JStr ''GitHub''), (''username'', JStr ''web-flow'')]),
    (''distinct'', JBool False),
    (''id'', JStr ''b89117ad1384490a3c226e9f7cd90ec1b6d19124''),
    (''message'', JStr message_17),
    (''timestamp'', JStr ''2023-09-15T14:39:02Z''),
    (''tree_id'', JStr ''b6691d6b356ac67b2510cad257c728d0ac670e6a''),
    (''url'', JStr ''https://github.com/awslabs/mountpoint-s3/commit/b89117ad1384490a3c226e9f7cd90ec1b6d19124'')]\<close>

definition benches_17 :: js where
  \<open>benches_17 = JArr [
    JObj [(''name'', JStr ''readdir_100''), (''value'', JNum 0.081), (''unit'', JStr ''seconds'')],
    JObj [(''name'', JStr ''readdir_1000''), (''value'', JNum 0.174), (''unit'', JStr ''seconds'')],
    JObj [(''name'', JStr ''readdir_10000''), (''value'', JNum 1.172), (''unit'', JStr ''seconds'')],
    JObj [(''name'', JStr ''readdir_100000''), (''value'', JNum 10.873), (''unit'', JStr ''seconds'')],
    JObj [(''name'', JStr ''time_to_first_byte_read''), (''value'', JNum 67.5820458), (''unit'', JStr ''milliseconds'')],
    JObj [(''name'', JStr ''time_to_first_byte_read_small_file''), (''value'', JNum 71.34666390000001), (''unit'', JStr ''milliseconds'')]]\<close>

definition run_17 :: js where
  \<open>run_17 = JObj [
    (''commit'', commit_17),
    (''date'', JNum 1694791039908),
    (''tool'', JStr ''customSmallerIsBetter''),
    (''benches'', benches_17)]\<close>

text \<open>Element 18 of \<^verbatim>\<open>entries.Benchmark\<close>: data.js, lines 978 to 1031 (the commit message at line 992, the commit at lines 979 to 996, the measurements at lines 999 to 1030).\<close>

definition message_18 :: string where
  \<open>message_18 = ''Improve logging and error handling in benchmark script (#507)\<newline>\<newline>Signed-off-by: Daniel Carl Jones <djonesoa@amazon.com>''\<close>

definition commit_18 :: js where
  \<open>commit_18 = JObj [
    (''author'', JObj [(''email'', JStr ''djonesoa@amazon.com''), (''name'', JStr ''Daniel Carl Jones''), (''username'', JStr ''dannycjones'')]),
    (''committer'', JObj [(''email'', JStr ''noreply@github.com''), (''name'', JStr ''GitHub''), (''username'', JStr ''web-flow'')]),
    (''distinct'', JBool True),
    (''id'', JStr ''171c4200df20223e831dcc856103d52bc4029e15''),
    (''message'', JStr message_18),
    (''timestamp'', JStr ''2023-09-15T14:40:01Z''),
    (''tree_id'', JStr ''5ceef93a7ccacff27d8a3786e112104808a86f98''),
    (''url'', JStr ''https://github.com/awslabs/mountpoint-s3/commit/171c4200df20223e831dcc856103d52bc4029e15'')]\<close>

definition benches_18 :: js where
  \<open>benches_18 = JArr [
    JObj [(''name'', JStr ''readdir_100''), (''value'', JNum 0.076), (''unit'', JStr ''seconds'')],
    JObj [(''name'', JStr ''readdir_1000''), (''value'', JNum 0.178), (''unit'', JStr ''seconds'')],
    JObj [(''name'', JStr ''readdir_10000''), (''value'', JNum 1.184), (''unit'', JStr ''seconds'')],
    JObj [(''name'', JStr ''readdir_100000''), (''value'', JNum 10.662), (''unit'', JStr ''seconds'')],
    JObj [(''name'', JStr ''time_to_first_byte_read''), (''value'', JNum 58.519034), (''unit'', JStr ''milliseconds'')],
    JObj [(''name'', JStr ''time_to_first_byte_read_small_file''), (''value'', JNum 75.18925309999999), (''unit'', JStr ''milliseconds'')]]\<close>

definition run_18 :: js where
  \<open>run_18 = JObj [
    (''commit'', commit_18),
    (''date'', JNum 1694791121977),
    (''tool'', JStr ''customSmallerIsBetter''),
    (''benches'', benches_18)]\<close>

text \<open>Element 19 of \<^verbatim>\<open>entries.Benchmark\<close>: data.js, lines 1032 to 1085 (the commit message at line 1046, the commit at lines 1033 to 1050, the measurements at lines 1053 to 1084).\<close>

definition message_19 :: string where
  \<open>message_19 = (''Build releases on CentOS 7 (#517)\<newline>\<newline>This gets us compatibility back to glibc 2.17. The tricky part is that'' @ [CHR 0x0D] @ ''\<newline>CentOS 7 by default packages a GCC that\'s too old to build the CRT and a'' @ [CHR 0x0D] @ ''\<newline>Clang that\'s too old to run bindgen. But they also distribute optional'' @ [CHR 0x0D] @ ''\<newline>packages (devtoolsets) that update these toolchains and stick them in a'' @ [CHR 0x0D] @ ''\<newline>separate directory. So this change adopts those, and tweaks the'' @ [CHR 0x0D] @ ''\<newline>environment variables on the builder to point at the newer tools.'' @ [CHR 0x0D] @ ''\<newline>'' @ [CHR 0x0D] @ ''\<newline>Signed-off-by: James Bornholt <bornholt@amazon.com>'')\<close>

definition commit_19 :: js where
  \<open>commit_19 = JObj [
    (''author'', JObj [(''email'', JStr ''bornholt@amazon.com''), (''name'', JStr ''James Bornholt''), (''username'', JStr ''jamesbornholt'')]),
    (''committer'', JObj [(''email'', JStr ''noreply@github.com''), (''name'', JStr ''GitHub''), (''username'', JStr ''web-flow'')]),
    (''distinct'', JBool True),
    (''id'', JStr ''11def4796d9479f8462fc78c7195dd5296c8b08f''),
    (''message'', JStr message_19),
    (''timestamp'', JStr ''2023-09-19T10:15:06+01:00''),
    (''tree_id'', JStr ''e142d4d3790b37b2345d8eccbb771534675adc83''),
    (''url'', JStr ''https://github.com/awslabs/mountpoint-s3/commit/11def4796d9479f8462fc78c7195dd5296c8b08f'')]\<close>

definition benches_19 :: js where
  \<open>benches_19 = JArr [
    JObj [(''name'', JStr ''readdir_100''), (''value'', JNum 0.077), (''unit'', JStr ''seconds'')],
    JObj [(''name'', JStr ''readdir_1000''), (''value'', JNum 0.173), (''unit'', JStr ''seconds'')],
    JObj [(''name'', JStr ''readdir_10000''), (''value'', JNum 1.114), (''unit'', JStr ''seconds'')],
    JObj [(''name'', JStr ''readdir_100000''), (''value'', JNum 10.653), (''unit'', JStr ''seconds'')],
    JObj [(''name'', JStr ''time_to_first_byte_read''), (''value'', JNum 97.37342170000001), (''unit'', JStr ''milliseconds'')],
    JObj [(''name'', JStr ''time_to_first_byte_read_small_file''), (''value'', JNum 78.5651175), (''unit'', JStr ''milliseconds'')]]\<close>

definition run_19 :: js where
  \<open>run_19 = JObj [
    (''commit'', commit_19),
    (''date'', JNum 1695115549054),
    (''tool'', JStr ''customSmallerIsBetter''),
    (''benches'', benches_19)]\<close>

text \<open>The object bound to \<^verbatim>\<open>window.BENCHMARK_DATA\<close> (data.js, lines 1 to 1088).\<close>

definition BENCHMARK_DATA :: js where
  \<open>BENCHMARK_DATA = JObj [
    (''lastUpdate'', JNum 1695115549634),
    (''repoUrl'', JStr ''https://github.com/awslabs/mountpoint-s3''),
    (''entries'', JObj [
      (''Benchmark'', JArr [
        run_0, run_1, run_2, run_3, run_4,
        run_5, run_6, run_7, run_8, run_9,
        run_10, run_11, run_12, run_13, run_14,
        run_15, run_16, run_17, run_18, run_19])])]\<close>

subsection \<open>Reading the data\<close>

text \<open>
  The suites are the properties of \<^verbatim>\<open>entries\<close>; a suite's value is its array of
  run records. \<open>all_runs\<close> lists the run records of every suite, \<open>suite_runs\<close> those of
  one suite, \<open>benches\<close> the measurements of one run record.
\<close>

definition suites :: "js \<Rightarrow> (string \<times> js) list" where
  "suites d = (case field ''entries'' d of Some (JObj kvs) \<Rightarrow> kvs | _ \<Rightarrow> [])"

definition all_runs :: "js \<Rightarrow> js list" where
  "all_runs d = concat (map (\<lambda>kv. elems (snd kv)) (suites d))"

definition suite_runs :: "string \<Rightarrow> js \<Rightarrow> js list" where
  "suite_runs name d =
     (case field ''entries'' d of
        Some e \<Rightarrow> (case field name e of Some arr \<Rightarrow> elems arr | None \<Rightarrow> [])
      | None \<Rightarrow> [])"

definition benches :: "js \<Rightarrow> js list" where
  "benches r = (case field ''benches'' r of Some arr \<Rightarrow> elems arr | None \<Rightarrow> [])"

text \<open>A property read at the type a consumer expects; \<open>None\<close> when it is absent or of another type.\<close>

definition num_field :: "string \<Rightarrow> js \<Rightarrow> rat option" where
  "num_field k v = (case field k v of Some (JNum q) \<Rightarrow> Some q | _ \<Rightarrow> None)"

definition str_field :: "string \<Rightarrow> js \<Rightarrow> string option" where
  "str_field k v = (case field k v of Some (JStr s) \<Rightarrow> Some s | _ \<Rightarrow> None)"

definition bench_names :: "js \<Rightarrow> string option list" where
  "bench_names r = map (str_field ''name'') (benches r)"

subsection \<open>The shape of section 6 of the specification\<close>

text \<open>
  The shape the specification records, field by field. \<open>has k p v\<close> says that \<open>v\<close> has a
  property \<open>k\<close> whose value satisfies \<open>p\<close>. An integer is a number with no fractional part.
\<close>

definition has :: "string \<Rightarrow> (js \<Rightarrow> bool) \<Rightarrow> js \<Rightarrow> bool" where
  "has k p v = (case field k v of Some x \<Rightarrow> p x | None \<Rightarrow> False)"

fun is_bool :: "js \<Rightarrow> bool" where
  "is_bool (JBool b) = True"
| "is_bool _ = False"

fun is_number :: "js \<Rightarrow> bool" where
  "is_number (JNum q) = True"
| "is_number _ = False"

fun is_integer :: "js \<Rightarrow> bool" where
  "is_integer (JNum q) = (of_int \<lfloor>q\<rfloor> = q)"
| "is_integer _ = False"

fun is_string :: "js \<Rightarrow> bool" where
  "is_string (JStr s) = True"
| "is_string _ = False"

fun is_object :: "js \<Rightarrow> bool" where
  "is_object (JObj kvs) = True"
| "is_object _ = False"

fun is_array_of :: "(js \<Rightarrow> bool) \<Rightarrow> js \<Rightarrow> bool" where
  "is_array_of p (JArr xs) = list_all p xs"
| "is_array_of p _ = False"

fun is_object_of :: "(js \<Rightarrow> bool) \<Rightarrow> js \<Rightarrow> bool" where
  "is_object_of p (JObj kvs) = list_all (\<lambda>kv. p (snd kv)) kvs"
| "is_object_of p _ = False"

definition shape_bench :: "js \<Rightarrow> bool" where
  "shape_bench b =
     (has ''name'' is_string b \<and> has ''value'' is_number b \<and> has ''unit'' is_string b)"

definition shape_commit :: "js \<Rightarrow> bool" where
  "shape_commit c =
     (has ''author'' is_object c \<and> has ''committer'' is_object c \<and>
      has ''distinct'' is_bool c \<and> has ''id'' is_string c \<and>
      has ''message'' is_string c \<and> has ''timestamp'' is_string c \<and>
      has ''tree_id'' is_string c \<and> has ''url'' is_string c)"

definition shape_run :: "js \<Rightarrow> bool" where
  "shape_run r =
     (has ''commit'' shape_commit r \<and> has ''date'' is_integer r \<and>
      has ''tool'' is_string r \<and> has ''benches'' (is_array_of shape_bench) r)"

definition shape_data :: "js \<Rightarrow> bool" where
  "shape_data d =
     (has ''lastUpdate'' is_integer d \<and> has ''repoUrl'' is_string d \<and>
      has ''entries'' (is_object_of (is_array_of shape_run)) d)"

subsection \<open>Measurements\<close>

text \<open>
  A number literal is read as the nearest double, ties to even. The largest double is
  \<open>2 ^ 1024 - 2 ^ 971\<close>, and a literal rounds to a finite double exactly when its
  magnitude is below the midpoint \<open>2 ^ 1024 - 2 ^ 970\<close> between that and \<open>2 ^ 1024\<close>.
  Rounding never changes the sign of a literal that is not negative.
\<close>

definition finite_number :: "rat \<Rightarrow> bool" where
  "finite_number q = (\<bar>q\<bar> < 2 ^ 1024 - 2 ^ 970)"

definition known_units :: "string list" where
  "known_units = [''seconds'', ''milliseconds'']"

definition measurement_ok :: "js \<Rightarrow> bool" where
  "measurement_ok b =
     ((case field ''value'' b of Some (JNum q) \<Rightarrow> finite_number q \<and> 0 \<le> q | _ \<Rightarrow> False) \<and>
      (case field ''unit'' b of Some (JStr u) \<Rightarrow> u \<in> set known_units | _ \<Rightarrow> False))"

definition benches_nonempty :: "js \<Rightarrow> bool" where
  "benches_nonempty r = (case field ''benches'' r of Some (JArr bs) \<Rightarrow> bs \<noteq> [] | _ \<Rightarrow> False)"

subsection \<open>Dates\<close>

definition date_le :: "js \<Rightarrow> js \<Rightarrow> bool" where
  "date_le r s =
     (case (num_field ''date'' r, num_field ''date'' s) of
        (Some a, Some b) \<Rightarrow> a \<le> b
      | _ \<Rightarrow> False)"

definition not_after_update :: "js \<Rightarrow> js \<Rightarrow> bool" where
  "not_after_update d r =
     (case (num_field ''lastUpdate'' d, num_field ''date'' r) of
        (Some u, Some t) \<Rightarrow> t \<le> u
      | _ \<Rightarrow> False)"

subsection \<open>Commits\<close>

text \<open>
  ISO 8601 date and time in the extended format, to the second, with a zone designator:
  \<^verbatim>\<open>YYYY-MM-DDThh:mm:ss\<close> followed by \<^verbatim>\<open>Z\<close> or by a numeric offset
  \<^verbatim>\<open>+hh:mm\<close> or \<^verbatim>\<open>-hh:mm\<close>. The day is checked against the month and the
  Gregorian leap-year rule.
\<close>

definition is_digit :: "char \<Rightarrow> bool" where
  "is_digit c = (c \<in> set ''0123456789'')"

definition digit_value :: "char \<Rightarrow> nat" where
  "digit_value c = of_char c - 48"

definition decimal :: "string \<Rightarrow> nat" where
  "decimal s = foldl (\<lambda>n c. 10 * n + digit_value c) 0 s"

definition leap_year :: "nat \<Rightarrow> bool" where
  "leap_year y = (y mod 4 = 0 \<and> (y mod 100 \<noteq> 0 \<or> y mod 400 = 0))"

definition days_in_month :: "nat \<Rightarrow> nat \<Rightarrow> nat" where
  "days_in_month y m =
     (if m = 2 then (if leap_year y then 29 else 28)
      else if m \<in> {4, 6, 9, 11} then 30 else 31)"

definition iso_date :: "string \<Rightarrow> bool" where
  "iso_date s =
     (length s = 10 \<and> list_all is_digit (take 4 s) \<and> take 1 (drop 4 s) = ''-'' \<and>
      list_all is_digit (take 2 (drop 5 s)) \<and> take 1 (drop 7 s) = ''-'' \<and>
      list_all is_digit (drop 8 s) \<and>
      (let y = decimal (take 4 s); m = decimal (take 2 (drop 5 s)); d = decimal (drop 8 s)
       in 1 \<le> m \<and> m \<le> 12 \<and> 1 \<le> d \<and> d \<le> days_in_month y m))"

definition iso_time :: "string \<Rightarrow> bool" where
  "iso_time s =
     (length s = 8 \<and> list_all is_digit (take 2 s) \<and> take 1 (drop 2 s) = '':'' \<and>
      list_all is_digit (take 2 (drop 3 s)) \<and> take 1 (drop 5 s) = '':'' \<and>
      list_all is_digit (drop 6 s) \<and>
      decimal (take 2 s) \<le> 23 \<and> decimal (take 2 (drop 3 s)) \<le> 59 \<and>
      decimal (drop 6 s) \<le> 59)"

definition iso_zone :: "string \<Rightarrow> bool" where
  "iso_zone s =
     (s = ''Z'' \<or>
      (length s = 6 \<and> take 1 s \<in> {''+'', ''-''} \<and>
       list_all is_digit (take 2 (drop 1 s)) \<and> take 1 (drop 3 s) = '':'' \<and>
       list_all is_digit (drop 4 s) \<and>
       decimal (take 2 (drop 1 s)) \<le> 23 \<and> decimal (drop 4 s) \<le> 59))"

definition iso8601_date_time :: "string \<Rightarrow> bool" where
  "iso8601_date_time s =
     (iso_date (take 10 s) \<and> take 1 (drop 10 s) = ''T'' \<and>
      iso_time (take 8 (drop 11 s)) \<and> iso_zone (drop 19 s))"

definition timestamp_ok :: "js \<Rightarrow> bool" where
  "timestamp_ok r =
     (case field ''commit'' r of
        Some c \<Rightarrow> (case field ''timestamp'' c of Some (JStr t) \<Rightarrow> iso8601_date_time t | _ \<Rightarrow> False)
      | None \<Rightarrow> False)"

definition is_lower_hex :: "char \<Rightarrow> bool" where
  "is_lower_hex c = (c \<in> set ''0123456789abcdef'')"

definition commit_id_ok :: "js \<Rightarrow> js \<Rightarrow> bool" where
  "commit_id_ok d r =
     (case field ''commit'' r of
        Some c \<Rightarrow>
          (case (str_field ''repoUrl'' d, str_field ''id'' c, str_field ''url'' c) of
             (Some repo, Some i, Some u) \<Rightarrow>
               length i = 40 \<and> list_all is_lower_hex i \<and> u = repo @ ''/commit/'' @ i
           | _ \<Rightarrow> False)
      | None \<Rightarrow> False)"

subsection \<open>The suite and its measurements\<close>

definition bench_order :: "string list" where
  "bench_order =
     [''readdir_100'', ''readdir_1000'', ''readdir_10000'', ''readdir_100000'',
      ''time_to_first_byte_read'', ''time_to_first_byte_read_small_file'']"

definition starts_with :: "string \<Rightarrow> string \<Rightarrow> bool" where
  "starts_with p s = (take (length p) s = p)"

text \<open>The unit a measurement's name calls for; \<open>None\<close> for a name of neither family.\<close>

definition unit_for :: "string \<Rightarrow> string option" where
  "unit_for n =
     (if starts_with ''readdir_'' n then Some ''seconds''
      else if starts_with ''time_to_first_byte_'' n then Some ''milliseconds''
      else None)"

definition unit_by_name :: "js \<Rightarrow> bool" where
  "unit_by_name b =
     (case (str_field ''name'' b, str_field ''unit'' b) of
        (Some n, Some u) \<Rightarrow> unit_for n = Some u
      | _ \<Rightarrow> False)"

section \<open>Properties of the data\<close>

subsection \<open>Unfolding the literal\<close>

lemmas run_defs =
  run_0_def run_1_def run_2_def run_3_def run_4_def run_5_def run_6_def
  run_7_def run_8_def run_9_def run_10_def run_11_def run_12_def run_13_def
  run_14_def run_15_def run_16_def run_17_def run_18_def run_19_def

lemmas commit_defs =
  commit_0_def commit_1_def commit_2_def commit_3_def commit_4_def commit_5_def commit_6_def
  commit_7_def commit_8_def commit_9_def commit_10_def commit_11_def commit_12_def commit_13_def
  commit_14_def commit_15_def commit_16_def commit_17_def commit_18_def commit_19_def

lemmas benches_defs =
  benches_0_def benches_1_def benches_2_def benches_3_def benches_4_def benches_5_def benches_6_def
  benches_7_def benches_8_def benches_9_def benches_10_def benches_11_def benches_12_def benches_13_def
  benches_14_def benches_15_def benches_16_def benches_17_def benches_18_def benches_19_def

lemma suites_BENCHMARK_DATA:
  "map fst (suites BENCHMARK_DATA) = [''Benchmark'']"
  by (simp add: suites_def BENCHMARK_DATA_def)

lemma all_runs_BENCHMARK_DATA:
  "all_runs BENCHMARK_DATA =
     [run_0, run_1, run_2, run_3, run_4, run_5, run_6, run_7, run_8, run_9,
      run_10, run_11, run_12, run_13, run_14, run_15, run_16, run_17, run_18, run_19]"
  by (simp add: all_runs_def suites_def BENCHMARK_DATA_def)

lemma suite_runs_Benchmark:
  "suite_runs ''Benchmark'' BENCHMARK_DATA =
     [run_0, run_1, run_2, run_3, run_4, run_5, run_6, run_7, run_8, run_9,
      run_10, run_11, run_12, run_13, run_14, run_15, run_16, run_17, run_18, run_19]"
  by (simp add: suite_runs_def BENCHMARK_DATA_def)

lemma successively_nth:
  "successively P xs \<Longrightarrow> Suc i < length xs \<Longrightarrow> P (xs ! i) (xs ! Suc i)"
proof (induction P xs arbitrary: i rule: successively.induct)
  case (3 P x y xs)
  then show ?case by (cases i) simp_all
qed simp_all

lemma num_field_JObj:
  "num_field k (JObj kvs) = (case map_of (rev kvs) k of Some (JNum q) \<Rightarrow> Some q | _ \<Rightarrow> None)"
  by (simp add: num_field_def)

lemma str_field_JObj:
  "str_field k (JObj kvs) = (case map_of (rev kvs) k of Some (JStr s) \<Rightarrow> Some s | _ \<Rightarrow> None)"
  by (simp add: str_field_def)

lemma last_update: "num_field ''lastUpdate'' BENCHMARK_DATA = Some 1695115549634"
  by (simp add: num_field_def BENCHMARK_DATA_def)

lemma repo_url:
  "str_field ''repoUrl'' BENCHMARK_DATA = Some ''https://github.com/awslabs/mountpoint-s3''"
  by (simp add: str_field_def BENCHMARK_DATA_def)

subsection \<open>Shape\<close>

lemma shape_commits:
  "shape_commit commit_0"
  "shape_commit commit_1"
  "shape_commit commit_2"
  "shape_commit commit_3"
  "shape_commit commit_4"
  "shape_commit commit_5"
  "shape_commit commit_6"
  "shape_commit commit_7"
  "shape_commit commit_8"
  "shape_commit commit_9"
  "shape_commit commit_10"
  "shape_commit commit_11"
  "shape_commit commit_12"
  "shape_commit commit_13"
  "shape_commit commit_14"
  "shape_commit commit_15"
  "shape_commit commit_16"
  "shape_commit commit_17"
  "shape_commit commit_18"
  "shape_commit commit_19"
  by (simp_all add: shape_commit_def has_def commit_defs)

lemma shape_benches:
  "is_array_of shape_bench benches_0"
  "is_array_of shape_bench benches_1"
  "is_array_of shape_bench benches_2"
  "is_array_of shape_bench benches_3"
  "is_array_of shape_bench benches_4"
  "is_array_of shape_bench benches_5"
  "is_array_of shape_bench benches_6"
  "is_array_of shape_bench benches_7"
  "is_array_of shape_bench benches_8"
  "is_array_of shape_bench benches_9"
  "is_array_of shape_bench benches_10"
  "is_array_of shape_bench benches_11"
  "is_array_of shape_bench benches_12"
  "is_array_of shape_bench benches_13"
  "is_array_of shape_bench benches_14"
  "is_array_of shape_bench benches_15"
  "is_array_of shape_bench benches_16"
  "is_array_of shape_bench benches_17"
  "is_array_of shape_bench benches_18"
  "is_array_of shape_bench benches_19"
  by (simp_all add: shape_bench_def has_def benches_defs)

lemma shape_runs:
  "shape_run run_0"
  "shape_run run_1"
  "shape_run run_2"
  "shape_run run_3"
  "shape_run run_4"
  "shape_run run_5"
  "shape_run run_6"
  "shape_run run_7"
  "shape_run run_8"
  "shape_run run_9"
  "shape_run run_10"
  "shape_run run_11"
  "shape_run run_12"
  "shape_run run_13"
  "shape_run run_14"
  "shape_run run_15"
  "shape_run run_16"
  "shape_run run_17"
  "shape_run run_18"
  "shape_run run_19"
  by (simp_all add: shape_run_def has_def run_defs shape_commits shape_benches)

text \<open>
  C1. The value bound to \<^verbatim>\<open>window.BENCHMARK_DATA\<close> has the shape of section 6 of the
  specification: an integer \<^verbatim>\<open>lastUpdate\<close>, a string \<^verbatim>\<open>repoUrl\<close>, and
  \<^verbatim>\<open>entries\<close>, an object whose every property is an array of run records. A run
  record has a \<^verbatim>\<open>commit\<close> object (objects \<^verbatim>\<open>author\<close> and \<^verbatim>\<open>committer\<close>,
  a boolean \<^verbatim>\<open>distinct\<close>, strings \<^verbatim>\<open>id\<close>, \<^verbatim>\<open>message\<close>, \<^verbatim>\<open>timestamp\<close>,
  \<^verbatim>\<open>tree_id\<close> and \<^verbatim>\<open>url\<close>), an integer \<^verbatim>\<open>date\<close>, a string \<^verbatim>\<open>tool\<close>
  and an array \<^verbatim>\<open>benches\<close> of records with a string \<^verbatim>\<open>name\<close>, a number
  \<^verbatim>\<open>value\<close> and a string \<^verbatim>\<open>unit\<close>.
\<close>

theorem benchmark_data_shape: "shape_data BENCHMARK_DATA"
  by (simp add: shape_data_def has_def BENCHMARK_DATA_def shape_runs)

subsection \<open>Measurements\<close>

lemma measurements_runs:
  "\<forall>b\<in>set (benches run_0). measurement_ok b"
  "\<forall>b\<in>set (benches run_1). measurement_ok b"
  "\<forall>b\<in>set (benches run_2). measurement_ok b"
  "\<forall>b\<in>set (benches run_3). measurement_ok b"
  "\<forall>b\<in>set (benches run_4). measurement_ok b"
  "\<forall>b\<in>set (benches run_5). measurement_ok b"
  "\<forall>b\<in>set (benches run_6). measurement_ok b"
  "\<forall>b\<in>set (benches run_7). measurement_ok b"
  "\<forall>b\<in>set (benches run_8). measurement_ok b"
  "\<forall>b\<in>set (benches run_9). measurement_ok b"
  "\<forall>b\<in>set (benches run_10). measurement_ok b"
  "\<forall>b\<in>set (benches run_11). measurement_ok b"
  "\<forall>b\<in>set (benches run_12). measurement_ok b"
  "\<forall>b\<in>set (benches run_13). measurement_ok b"
  "\<forall>b\<in>set (benches run_14). measurement_ok b"
  "\<forall>b\<in>set (benches run_15). measurement_ok b"
  "\<forall>b\<in>set (benches run_16). measurement_ok b"
  "\<forall>b\<in>set (benches run_17). measurement_ok b"
  "\<forall>b\<in>set (benches run_18). measurement_ok b"
  "\<forall>b\<in>set (benches run_19). measurement_ok b"
  by (simp_all add: benches_def measurement_ok_def finite_number_def known_units_def run_defs benches_defs)

text \<open>
  C2. Every measurement of every run record of every suite has a \<^verbatim>\<open>value\<close> that is a
  finite number and is not negative, and a \<^verbatim>\<open>unit\<close> that is one of the known unit
  strings, \<^verbatim>\<open>seconds\<close> and \<^verbatim>\<open>milliseconds\<close>.
\<close>

theorem measurements_finite_nonneg_known_unit:
  "\<forall>r\<in>set (all_runs BENCHMARK_DATA). \<forall>b\<in>set (benches r). measurement_ok b"
  by (simp add: all_runs_BENCHMARK_DATA measurements_runs)

theorem measurements_finite_nonneg_known_unit_witness:
  "run_19 \<in> set (all_runs BENCHMARK_DATA) \<and>
   JObj [(''name'', JStr ''time_to_first_byte_read''), (''value'', JNum 97.37342170000001),
         (''unit'', JStr ''milliseconds'')] \<in> set (benches run_19) \<and>
   measurement_ok
     (JObj [(''name'', JStr ''time_to_first_byte_read''), (''value'', JNum 97.37342170000001),
            (''unit'', JStr ''milliseconds'')])"
proof -
  have r: "run_19 \<in> set (all_runs BENCHMARK_DATA)"
    by (simp add: all_runs_BENCHMARK_DATA)
  have b: "JObj [(''name'', JStr ''time_to_first_byte_read''), (''value'', JNum 97.37342170000001),
         (''unit'', JStr ''milliseconds'')] \<in> set (benches run_19)"
    by (simp add: benches_def run_19_def benches_19_def)
  from measurements_finite_nonneg_known_unit r b show ?thesis
    by blast
qed


lemma nonempty_runs:
  "benches_nonempty run_0"
  "benches_nonempty run_1"
  "benches_nonempty run_2"
  "benches_nonempty run_3"
  "benches_nonempty run_4"
  "benches_nonempty run_5"
  "benches_nonempty run_6"
  "benches_nonempty run_7"
  "benches_nonempty run_8"
  "benches_nonempty run_9"
  "benches_nonempty run_10"
  "benches_nonempty run_11"
  "benches_nonempty run_12"
  "benches_nonempty run_13"
  "benches_nonempty run_14"
  "benches_nonempty run_15"
  "benches_nonempty run_16"
  "benches_nonempty run_17"
  "benches_nonempty run_18"
  "benches_nonempty run_19"
  by (simp_all add: benches_nonempty_def run_defs benches_defs)

text \<open>
  C5. In every run record of every suite, \<^verbatim>\<open>benches\<close> is an array (an ordered
  sequence) with at least one element.
\<close>

theorem benches_non_empty:
  "\<forall>r\<in>set (all_runs BENCHMARK_DATA). benches_nonempty r"
  by (simp add: all_runs_BENCHMARK_DATA nonempty_runs)

theorem benches_non_empty_witness:
  "run_0 \<in> set (all_runs BENCHMARK_DATA) \<and> benches_nonempty run_0 \<and> length (benches run_0) = 6"
proof -
  have r: "run_0 \<in> set (all_runs BENCHMARK_DATA)"
    by (simp add: all_runs_BENCHMARK_DATA)
  have n: "length (benches run_0) = 6"
    by (simp add: benches_def run_0_def benches_0_def)
  from benches_non_empty r n show ?thesis
    by blast
qed

subsection \<open>Dates\<close>

lemma date_steps:
  "date_le run_0 run_1"
  "date_le run_1 run_2"
  "date_le run_2 run_3"
  "date_le run_3 run_4"
  "date_le run_4 run_5"
  "date_le run_5 run_6"
  "date_le run_6 run_7"
  "date_le run_7 run_8"
  "date_le run_8 run_9"
  "date_le run_9 run_10"
  "date_le run_10 run_11"
  "date_le run_11 run_12"
  "date_le run_12 run_13"
  "date_le run_13 run_14"
  "date_le run_14 run_15"
  "date_le run_15 run_16"
  "date_le run_16 run_17"
  "date_le run_17 run_18"
  "date_le run_18 run_19"
  by (simp_all add: date_le_def num_field_JObj run_defs)

text \<open>
  C3. In the array \<^verbatim>\<open>entries.Benchmark\<close>, the \<^verbatim>\<open>date\<close> of each run record is
  less than or equal to the \<^verbatim>\<open>date\<close> of the record that follows it.
\<close>

theorem dates_non_decreasing:
  "\<forall>i. Suc i < length (suite_runs ''Benchmark'' BENCHMARK_DATA) \<longrightarrow>
     date_le (suite_runs ''Benchmark'' BENCHMARK_DATA ! i)
             (suite_runs ''Benchmark'' BENCHMARK_DATA ! Suc i)"
proof -
  have "successively date_le (suite_runs ''Benchmark'' BENCHMARK_DATA)"
    by (simp add: suite_runs_Benchmark date_steps)
  then show ?thesis
    by (blast intro: successively_nth)
qed

theorem dates_non_decreasing_witness:
  "Suc 18 < length (suite_runs ''Benchmark'' BENCHMARK_DATA) \<and>
   suite_runs ''Benchmark'' BENCHMARK_DATA ! 18 = run_18 \<and>
   suite_runs ''Benchmark'' BENCHMARK_DATA ! Suc 18 = run_19 \<and>
   date_le run_18 run_19"
proof -
  have n: "Suc 18 < length (suite_runs ''Benchmark'' BENCHMARK_DATA)"
    by (simp add: suite_runs_Benchmark)
  have a: "suite_runs ''Benchmark'' BENCHMARK_DATA ! 18 = run_18"
    by (simp add: suite_runs_Benchmark)
  have b: "suite_runs ''Benchmark'' BENCHMARK_DATA ! Suc 18 = run_19"
    by (simp add: suite_runs_Benchmark)
  from dates_non_decreasing n
  have "date_le (suite_runs ''Benchmark'' BENCHMARK_DATA ! 18)
                (suite_runs ''Benchmark'' BENCHMARK_DATA ! Suc 18)"
    by blast
  with n a b show ?thesis
    by simp
qed


lemma update_runs:
  "not_after_update BENCHMARK_DATA run_0"
  "not_after_update BENCHMARK_DATA run_1"
  "not_after_update BENCHMARK_DATA run_2"
  "not_after_update BENCHMARK_DATA run_3"
  "not_after_update BENCHMARK_DATA run_4"
  "not_after_update BENCHMARK_DATA run_5"
  "not_after_update BENCHMARK_DATA run_6"
  "not_after_update BENCHMARK_DATA run_7"
  "not_after_update BENCHMARK_DATA run_8"
  "not_after_update BENCHMARK_DATA run_9"
  "not_after_update BENCHMARK_DATA run_10"
  "not_after_update BENCHMARK_DATA run_11"
  "not_after_update BENCHMARK_DATA run_12"
  "not_after_update BENCHMARK_DATA run_13"
  "not_after_update BENCHMARK_DATA run_14"
  "not_after_update BENCHMARK_DATA run_15"
  "not_after_update BENCHMARK_DATA run_16"
  "not_after_update BENCHMARK_DATA run_17"
  "not_after_update BENCHMARK_DATA run_18"
  "not_after_update BENCHMARK_DATA run_19"
  by (simp_all add: not_after_update_def last_update num_field_JObj run_defs)

text \<open>
  C8. The top-level \<^verbatim>\<open>lastUpdate\<close> is greater than or equal to the \<^verbatim>\<open>date\<close> of
  every run record of every suite.
\<close>

theorem last_update_not_before_dates:
  "\<forall>r\<in>set (all_runs BENCHMARK_DATA). not_after_update BENCHMARK_DATA r"
  by (simp add: all_runs_BENCHMARK_DATA update_runs)

theorem last_update_not_before_dates_witness:
  "run_19 \<in> set (all_runs BENCHMARK_DATA) \<and>
   num_field ''date'' run_19 = Some 1695115549054 \<and>
   num_field ''lastUpdate'' BENCHMARK_DATA = Some 1695115549634 \<and>
   not_after_update BENCHMARK_DATA run_19"
proof -
  have r: "run_19 \<in> set (all_runs BENCHMARK_DATA)"
    by (simp add: all_runs_BENCHMARK_DATA)
  have d: "num_field ''date'' run_19 = Some 1695115549054"
    by (simp add: num_field_JObj run_19_def)
  from last_update_not_before_dates r d last_update show ?thesis
    by blast
qed

subsection \<open>Commits\<close>

lemma timestamps_runs:
  "timestamp_ok run_0"
  "timestamp_ok run_1"
  "timestamp_ok run_2"
  "timestamp_ok run_3"
  "timestamp_ok run_4"
  "timestamp_ok run_5"
  "timestamp_ok run_6"
  "timestamp_ok run_7"
  "timestamp_ok run_8"
  "timestamp_ok run_9"
  "timestamp_ok run_10"
  "timestamp_ok run_11"
  "timestamp_ok run_12"
  "timestamp_ok run_13"
  "timestamp_ok run_14"
  "timestamp_ok run_15"
  "timestamp_ok run_16"
  "timestamp_ok run_17"
  "timestamp_ok run_18"
  "timestamp_ok run_19"
  by (simp_all add: timestamp_ok_def iso8601_date_time_def iso_date_def iso_time_def iso_zone_def is_digit_def decimal_def digit_value_def days_in_month_def leap_year_def run_defs commit_defs)

text \<open>
  C6. In every run record, \<^verbatim>\<open>commit.timestamp\<close> is a string in ISO 8601 date-time
  format: a calendar date, \<^verbatim>\<open>T\<close>, a time of day, and either \<^verbatim>\<open>Z\<close> or a numeric
  offset from UTC.
\<close>

theorem timestamps_iso8601:
  "\<forall>r\<in>set (all_runs BENCHMARK_DATA). timestamp_ok r"
  by (simp add: all_runs_BENCHMARK_DATA timestamps_runs)

theorem timestamps_iso8601_witness:
  "run_0 \<in> set (all_runs BENCHMARK_DATA) \<and> run_1 \<in> set (all_runs BENCHMARK_DATA) \<and>
   str_field ''timestamp'' commit_0 = Some ''2023-08-25T15:38:27Z'' \<and>
   str_field ''timestamp'' commit_1 = Some ''2023-08-25T13:05:48-05:00'' \<and>
   timestamp_ok run_0 \<and> timestamp_ok run_1"
proof -
  have r: "run_0 \<in> set (all_runs BENCHMARK_DATA)" "run_1 \<in> set (all_runs BENCHMARK_DATA)"
    by (simp_all add: all_runs_BENCHMARK_DATA)
  have t: "str_field ''timestamp'' commit_0 = Some ''2023-08-25T15:38:27Z''"
    "str_field ''timestamp'' commit_1 = Some ''2023-08-25T13:05:48-05:00''"
    by (simp_all add: str_field_JObj commit_0_def commit_1_def)
  from timestamps_iso8601 r t show ?thesis
    by blast
qed


lemma commit_ids_runs:
  "commit_id_ok BENCHMARK_DATA run_0"
  "commit_id_ok BENCHMARK_DATA run_1"
  "commit_id_ok BENCHMARK_DATA run_2"
  "commit_id_ok BENCHMARK_DATA run_3"
  "commit_id_ok BENCHMARK_DATA run_4"
  "commit_id_ok BENCHMARK_DATA run_5"
  "commit_id_ok BENCHMARK_DATA run_6"
  "commit_id_ok BENCHMARK_DATA run_7"
  "commit_id_ok BENCHMARK_DATA run_8"
  "commit_id_ok BENCHMARK_DATA run_9"
  "commit_id_ok BENCHMARK_DATA run_10"
  "commit_id_ok BENCHMARK_DATA run_11"
  "commit_id_ok BENCHMARK_DATA run_12"
  "commit_id_ok BENCHMARK_DATA run_13"
  "commit_id_ok BENCHMARK_DATA run_14"
  "commit_id_ok BENCHMARK_DATA run_15"
  "commit_id_ok BENCHMARK_DATA run_16"
  "commit_id_ok BENCHMARK_DATA run_17"
  "commit_id_ok BENCHMARK_DATA run_18"
  "commit_id_ok BENCHMARK_DATA run_19"
  by (simp_all add: commit_id_ok_def repo_url str_field_JObj is_lower_hex_def run_defs commit_defs)

text \<open>
  C9. In every run record, \<^verbatim>\<open>commit.id\<close> is a string of 40 lowercase hexadecimal
  digits, and \<^verbatim>\<open>commit.url\<close> is the top-level \<^verbatim>\<open>repoUrl\<close> followed by
  \<^verbatim>\<open>/commit/\<close> and \<^verbatim>\<open>commit.id\<close>.
\<close>

theorem commit_id_hex_and_url:
  "\<forall>r\<in>set (all_runs BENCHMARK_DATA). commit_id_ok BENCHMARK_DATA r"
  by (simp add: all_runs_BENCHMARK_DATA commit_ids_runs)

theorem commit_id_hex_and_url_witness:
  "run_0 \<in> set (all_runs BENCHMARK_DATA) \<and>
   str_field ''id'' commit_0 = Some ''c7464d043a0792a164aa6ecbb189974b2e2dfeeb'' \<and>
   commit_id_ok BENCHMARK_DATA run_0"
proof -
  have r: "run_0 \<in> set (all_runs BENCHMARK_DATA)"
    by (simp add: all_runs_BENCHMARK_DATA)
  have i: "str_field ''id'' commit_0 = Some ''c7464d043a0792a164aa6ecbb189974b2e2dfeeb''"
    by (simp add: str_field_JObj commit_0_def)
  from commit_id_hex_and_url r i show ?thesis
    by blast
qed

subsection \<open>The suite and its measurements\<close>

lemma names_runs:
  "bench_names run_0 = map Some bench_order"
  "bench_names run_1 = map Some bench_order"
  "bench_names run_2 = map Some bench_order"
  "bench_names run_3 = map Some bench_order"
  "bench_names run_4 = map Some bench_order"
  "bench_names run_5 = map Some bench_order"
  "bench_names run_6 = map Some bench_order"
  "bench_names run_7 = map Some bench_order"
  "bench_names run_8 = map Some bench_order"
  "bench_names run_9 = map Some bench_order"
  "bench_names run_10 = map Some bench_order"
  "bench_names run_11 = map Some bench_order"
  "bench_names run_12 = map Some bench_order"
  "bench_names run_13 = map Some bench_order"
  "bench_names run_14 = map Some bench_order"
  "bench_names run_15 = map Some bench_order"
  "bench_names run_16 = map Some bench_order"
  "bench_names run_17 = map Some bench_order"
  "bench_names run_18 = map Some bench_order"
  "bench_names run_19 = map Some bench_order"
  by (simp_all add: bench_names_def benches_def bench_order_def str_field_JObj run_defs benches_defs)

text \<open>
  C4. Any two run records of \<^verbatim>\<open>entries.Benchmark\<close> have the same set of measurement
  names in their \<^verbatim>\<open>benches\<close> arrays.
\<close>

theorem bench_names_stable:
  "\<forall>r\<in>set (suite_runs ''Benchmark'' BENCHMARK_DATA).
     \<forall>s\<in>set (suite_runs ''Benchmark'' BENCHMARK_DATA).
       set (bench_names r) = set (bench_names s)"
  by (simp add: suite_runs_Benchmark names_runs)

theorem bench_names_stable_witness:
  "run_0 \<in> set (suite_runs ''Benchmark'' BENCHMARK_DATA) \<and>
   run_19 \<in> set (suite_runs ''Benchmark'' BENCHMARK_DATA) \<and>
   set (bench_names run_0) = set (bench_names run_19) \<and>
   card (set (bench_names run_0)) = 6"
proof -
  have r: "run_0 \<in> set (suite_runs ''Benchmark'' BENCHMARK_DATA)"
    "run_19 \<in> set (suite_runs ''Benchmark'' BENCHMARK_DATA)"
    by (simp_all add: suite_runs_Benchmark)
  have c: "card (set (bench_names run_0)) = 6"
    by (simp add: names_runs bench_order_def)
  from bench_names_stable r c show ?thesis
    by blast
qed


lemma tools_runs:
  "str_field ''tool'' run_0 = Some ''customSmallerIsBetter''"
  "str_field ''tool'' run_1 = Some ''customSmallerIsBetter''"
  "str_field ''tool'' run_2 = Some ''customSmallerIsBetter''"
  "str_field ''tool'' run_3 = Some ''customSmallerIsBetter''"
  "str_field ''tool'' run_4 = Some ''customSmallerIsBetter''"
  "str_field ''tool'' run_5 = Some ''customSmallerIsBetter''"
  "str_field ''tool'' run_6 = Some ''customSmallerIsBetter''"
  "str_field ''tool'' run_7 = Some ''customSmallerIsBetter''"
  "str_field ''tool'' run_8 = Some ''customSmallerIsBetter''"
  "str_field ''tool'' run_9 = Some ''customSmallerIsBetter''"
  "str_field ''tool'' run_10 = Some ''customSmallerIsBetter''"
  "str_field ''tool'' run_11 = Some ''customSmallerIsBetter''"
  "str_field ''tool'' run_12 = Some ''customSmallerIsBetter''"
  "str_field ''tool'' run_13 = Some ''customSmallerIsBetter''"
  "str_field ''tool'' run_14 = Some ''customSmallerIsBetter''"
  "str_field ''tool'' run_15 = Some ''customSmallerIsBetter''"
  "str_field ''tool'' run_16 = Some ''customSmallerIsBetter''"
  "str_field ''tool'' run_17 = Some ''customSmallerIsBetter''"
  "str_field ''tool'' run_18 = Some ''customSmallerIsBetter''"
  "str_field ''tool'' run_19 = Some ''customSmallerIsBetter''"
  by (simp_all add: str_field_JObj run_defs)

lemma lengths_runs:
  "length (benches run_0) = 6"
  "length (benches run_1) = 6"
  "length (benches run_2) = 6"
  "length (benches run_3) = 6"
  "length (benches run_4) = 6"
  "length (benches run_5) = 6"
  "length (benches run_6) = 6"
  "length (benches run_7) = 6"
  "length (benches run_8) = 6"
  "length (benches run_9) = 6"
  "length (benches run_10) = 6"
  "length (benches run_11) = 6"
  "length (benches run_12) = 6"
  "length (benches run_13) = 6"
  "length (benches run_14) = 6"
  "length (benches run_15) = 6"
  "length (benches run_16) = 6"
  "length (benches run_17) = 6"
  "length (benches run_18) = 6"
  "length (benches run_19) = 6"
  by (simp_all add: benches_def run_defs benches_defs)

lemma units_runs:
  "\<forall>b\<in>set (benches run_0). unit_by_name b"
  "\<forall>b\<in>set (benches run_1). unit_by_name b"
  "\<forall>b\<in>set (benches run_2). unit_by_name b"
  "\<forall>b\<in>set (benches run_3). unit_by_name b"
  "\<forall>b\<in>set (benches run_4). unit_by_name b"
  "\<forall>b\<in>set (benches run_5). unit_by_name b"
  "\<forall>b\<in>set (benches run_6). unit_by_name b"
  "\<forall>b\<in>set (benches run_7). unit_by_name b"
  "\<forall>b\<in>set (benches run_8). unit_by_name b"
  "\<forall>b\<in>set (benches run_9). unit_by_name b"
  "\<forall>b\<in>set (benches run_10). unit_by_name b"
  "\<forall>b\<in>set (benches run_11). unit_by_name b"
  "\<forall>b\<in>set (benches run_12). unit_by_name b"
  "\<forall>b\<in>set (benches run_13). unit_by_name b"
  "\<forall>b\<in>set (benches run_14). unit_by_name b"
  "\<forall>b\<in>set (benches run_15). unit_by_name b"
  "\<forall>b\<in>set (benches run_16). unit_by_name b"
  "\<forall>b\<in>set (benches run_17). unit_by_name b"
  "\<forall>b\<in>set (benches run_18). unit_by_name b"
  "\<forall>b\<in>set (benches run_19). unit_by_name b"
  by (simp_all add: benches_def unit_by_name_def unit_for_def starts_with_def str_field_JObj run_defs benches_defs)

text \<open>
  C10. \<^verbatim>\<open>entries\<close> has exactly one suite, named \<^verbatim>\<open>Benchmark\<close>. In every run
  record \<^verbatim>\<open>tool\<close> is the string \<^verbatim>\<open>customSmallerIsBetter\<close>, and \<^verbatim>\<open>benches\<close>
  lists exactly six measurements, named in this order \<^verbatim>\<open>readdir_100\<close>,
  \<^verbatim>\<open>readdir_1000\<close>, \<^verbatim>\<open>readdir_10000\<close>, \<^verbatim>\<open>readdir_100000\<close>,
  \<^verbatim>\<open>time_to_first_byte_read\<close>, \<^verbatim>\<open>time_to_first_byte_read_small_file\<close>. The name
  determines the unit: \<^verbatim>\<open>seconds\<close> for a name that starts with \<^verbatim>\<open>readdir_\<close>,
  \<^verbatim>\<open>milliseconds\<close> for one that starts with \<^verbatim>\<open>time_to_first_byte_\<close>.
\<close>

theorem tool_suite_and_measurement_order:
  "map fst (suites BENCHMARK_DATA) = [''Benchmark''] \<and>
   (\<forall>r\<in>set (all_runs BENCHMARK_DATA).
      str_field ''tool'' r = Some ''customSmallerIsBetter'' \<and>
      length (benches r) = 6 \<and>
      bench_names r = map Some bench_order \<and>
      (\<forall>b\<in>set (benches r). unit_by_name b))"
  by (simp add: suites_BENCHMARK_DATA all_runs_BENCHMARK_DATA tools_runs lengths_runs names_runs
      units_runs)

theorem tool_suite_and_measurement_order_witness:
  "run_7 \<in> set (all_runs BENCHMARK_DATA) \<and>
   benches run_7 ! 3 = JObj [(''name'', JStr ''readdir_100000''), (''value'', JNum 10.667),
                             (''unit'', JStr ''seconds'')] \<and>
   benches run_7 ! 3 \<in> set (benches run_7) \<and>
   str_field ''tool'' run_7 = Some ''customSmallerIsBetter'' \<and>
   bench_names run_7 = map Some bench_order \<and>
   unit_by_name (benches run_7 ! 3)"
proof -
  have r: "run_7 \<in> set (all_runs BENCHMARK_DATA)"
    by (simp add: all_runs_BENCHMARK_DATA)
  have b: "benches run_7 ! 3 = JObj [(''name'', JStr ''readdir_100000''), (''value'', JNum 10.667),
                             (''unit'', JStr ''seconds'')]"
    by (simp add: benches_def run_7_def benches_7_def)
  have m: "benches run_7 ! 3 \<in> set (benches run_7)"
    by (simp add: lengths_runs)
  from tool_suite_and_measurement_order r b m show ?thesis
    by blast
qed

end
